theory Spec2Isabelle
  imports Main
begin

section \<open>JavaScript values\<close>

text \<open>
  Strings are modelled as byte strings: the UTF-8 encoding of a well-formed JavaScript
  string. All delimiters the client looks for (\<open>:\<close>, \<open>?\<close>, \<open>-\<close>, \<open>%20\<close>) are ASCII, so
  searching and splitting agree with the UTF-16 view of the source.
\<close>

datatype js_error =
    JsError string      \<comment> \<open>\<open>new Error(message)\<close>, created by the client itself\<close>
  | TypeError string    \<comment> \<open>raised by the language on a bad member access\<close>
  | PlatformError string \<comment> \<open>any exception raised by a collaborator\<close>

datatype js_number = Num int | NaN

text \<open>A settled or pending promise; \<open>Pending\<close> is a promise that never settles.\<close>

datatype 'a promise = Pending | Rejected js_error | Resolved 'a

text \<open>A synchronous call that mutates the client: what it returns or throws.\<close>

datatype 'a completion = Return 'a | Throw js_error

subsection \<open>String helpers of the language\<close>

definition js_str :: "string option \<Rightarrow> string" where
  \<comment> \<open>string concatenation with a possibly \<open>undefined\<close> operand\<close>
  "js_str v = (case v of None \<Rightarrow> ''undefined'' | Some s \<Rightarrow> s)"

definition truthy :: "string option \<Rightarrow> bool" where
  \<comment> \<open>\<open>undefined\<close> and the empty string are falsy\<close>
  "truthy v = (case v of None \<Rightarrow> False | Some s \<Rightarrow> s \<noteq> [])"

definition toLowerCase_char :: "char \<Rightarrow> char" where
  "toLowerCase_char c =
     (let n = (of_char c :: nat) in if 65 \<le> n \<and> n \<le> 90 then char_of (n + 32) else c)"

definition toLowerCase :: "string \<Rightarrow> string" where
  "toLowerCase s = map toLowerCase_char s"

fun split_on :: "char \<Rightarrow> string \<Rightarrow> string list" where
  \<comment> \<open>\<open>s.split(c)\<close>: every piece, at least one\<close>
  "split_on c [] = [[]]"
| "split_on c (x # xs) =
     (if x = c then [] # split_on c xs
      else (case split_on c xs of [] \<Rightarrow> [[x]] | p # ps \<Rightarrow> (x # p) # ps))"

definition js_split :: "char \<Rightarrow> nat \<Rightarrow> string \<Rightarrow> string list" where
  \<comment> \<open>\<open>s.split(c, limit)\<close>: the pieces beyond the limit are dropped, not joined\<close>
  "js_split c limit s = take limit (split_on c s)"

fun join :: "string \<Rightarrow> string list \<Rightarrow> string" where
  "join sep [] = []"
| "join sep [p] = p"
| "join sep (p # q # ps) = p @ sep @ join sep (q # ps)"

fun digits_prefix :: "string \<Rightarrow> string" where
  "digits_prefix [] = []"
| "digits_prefix (c # cs) =
     (if 48 \<le> (of_char c :: nat) \<and> (of_char c :: nat) \<le> 57 then c # digits_prefix cs else [])"

definition is_space :: "char \<Rightarrow> bool" where
  \<comment> \<open>the ASCII white space and line terminators\<close>
  "is_space c = ((of_char c :: nat) \<in> {9, 10, 11, 12, 13, 32})"

definition digits_value :: "string \<Rightarrow> int" where
  "digits_value ds = foldl (\<lambda>acc c. 10 * acc + (int (of_char c) - 48)) 0 ds"

definition parseInt10 :: "string \<Rightarrow> js_number" where
  \<comment> \<open>\<open>parseInt(s, 10)\<close>: leading white space, an optional sign, then decimal digits\<close>
  "parseInt10 s =
     (let t = dropWhile is_space s;
          neg = (case t of [] \<Rightarrow> False | c # _ \<Rightarrow> c = CHR ''-'');
          u = (case t of [] \<Rightarrow> [] | c # cs \<Rightarrow> if c = CHR ''-'' \<or> c = CHR ''+'' then cs else t);
          ds = digits_prefix u
      in if ds = [] then NaN
         else Num (if neg then - digits_value ds else digits_value ds))"

section \<open>Collaborators\<close>

text \<open>The components the URI parser returns; an absent component is \<open>undefined\<close>.\<close>

datatype uri_port = PortNumber js_number | PortString string | PortUndefined

record uri_components =
  uri_scheme :: "string option"
  uri_userinfo :: "string option"
  uri_host :: "string option"
  uri_port :: uri_port
  uri_path :: "string option"

text \<open>The fetch \<open>Request\<close> handle; header names are stored in lower case.\<close>

type_synonym js_headers = "(string \<times> string) list"

record js_request =
  url :: string
  cache :: string
  credentials :: string
  request_headers :: js_headers
  mode :: string
  redirect :: string

subsection \<open>Requests, responses and the event loop\<close>

datatype body_init = BodyString string | BodyBlob string | BodyArrayBuffer string | BodyStream string

text \<open>The second argument of \<open>fetch\<close>; \<open>init_signal\<close> says that an abort signal is attached.\<close>

record request_init =
  init_method :: string
  init_headers :: js_headers
  init_body :: "body_init option"
  init_signal :: bool

datatype json = JNull | JBool bool | JNum int | JStr string | JArr "json list" | JObj "(string \<times> json) list"

text \<open>
  How the headers of a response can be walked: with \<open>forEach\<close>, with \<open>entries\<close>, or with
  neither. The pairs come in the order of the iteration.
\<close>

datatype header_iteration = ViaForEach js_headers | ViaEntries js_headers | NoIteration

text \<open>
  A response handle. \<open>blob\<close> and \<open>json\<close> are what reading the body gives: the bytes or
  the decoded value, a rejection (for \<open>json\<close>: a body that is not JSON), or nothing ever.
\<close>

record response =
  status :: nat
  ok :: bool
  statusText :: string
  response_headers :: header_iteration
  blob :: "string promise"
  json :: "json promise"

text \<open>
  The values of a parameter object. A number is an integer written in decimal; an object
  carries what its \<open>toString\<close> does. \<open>null\<close> has type \<open>object\<close> and no \<open>toString\<close>.
\<close>

datatype param_value =
    VString string | VNumber int | VBoolean bool
  | VObject "js_error + string" | VNull | VUndefined

text \<open>
  What the event loop delivers to one call, in order: the settlement of the fetch promise
  and the expiry of the timer. \<open>fetch_throws\<close> is a \<open>fetch\<close> that throws at once.
\<close>

datatype event = FetchResolved response | FetchRejected js_error | TimerFired

record fetch_run =
  fetch_throws :: "js_error option"
  deliveries :: "event list"

text \<open>
  The platform the client runs on: the URI parser, the \<open>Request\<close> constructor (which
  throws on a URL it refuses), \<open>btoa\<close> (which throws on a character it cannot encode),
  whether \<open>AbortController\<close> is defined, a \<open>setTimeout\<close> that may throw, \<open>fetch\<close>
  with everything that follows from one call of it, and for the JSON client
  \<open>JSON.stringify\<close> (which throws on a value it cannot serialise) and
  \<open>self.document.characterSet\<close> (which throws where there is no document).
\<close>

record platform =
  uriParse :: "string \<Rightarrow> uri_components"
  Request_refuses :: "string \<Rightarrow> js_error option"
  btoa :: "string \<Rightarrow> js_error + string"
  has_AbortController :: bool
  setTimeout_throws :: "js_error option"
  fetch :: "js_request option \<Rightarrow> request_init \<Rightarrow> fetch_run"
  JSON_stringify :: "(string \<times> param_value) list \<Rightarrow> js_error + string"
  characterSet :: "string option completion"

section \<open>HttpClient: configuration\<close>

record http_client =
  authUsername :: "string option"
  authPassword :: "string option"
  requestInstance :: "js_request option"
  host :: "string option"
  path :: "string option"
  port :: "js_number option"
  returnRawResponse :: bool
  scheme :: "string option"
  timeout :: int

definition COMPATIBLE_SCHEMES :: "string list" where
  "COMPATIBLE_SCHEMES = [''http'', ''https'']"

definition configureFromUrl :: "platform \<Rightarrow> string \<Rightarrow> http_client \<Rightarrow> js_request completion" where
  "configureFromUrl p u c =
     (let (cache', credentials', headers', redirect') =
            (case requestInstance c of
               Some r \<Rightarrow> (cache r, credentials r, request_headers r, redirect r)
             | None \<Rightarrow> (''default'', ''include'', [], ''follow''))
      in case Request_refuses p u of
           Some e \<Rightarrow> Throw e
         | None \<Rightarrow> Return \<lparr>url = u, cache = cache', credentials = credentials',
                            request_headers = headers', mode = ''cors'', redirect = redirect'\<rparr>)"

definition configure_scheme :: "uri_components \<Rightarrow> string" where
  "configure_scheme urlData =
     (if truthy (uri_scheme urlData) then toLowerCase (js_str (uri_scheme urlData)) else [])"

definition configure_port :: "uri_port \<Rightarrow> js_number" where
  "configure_port pt =
     (case pt of PortNumber n \<Rightarrow> n
               | PortString s \<Rightarrow> parseInt10 s
               | PortUndefined \<Rightarrow> parseInt10 ''undefined'')"

definition configure_auth :: "string \<Rightarrow> http_client \<Rightarrow> http_client" where
  "configure_auth userinfo c =
     (let authData = js_split CHR '':'' 2 userinfo
      in c\<lparr>authUsername := (case authData of [] \<Rightarrow> None | a # _ \<Rightarrow> Some a),
            authPassword := Some (if length authData > 1 then join '':'' (drop 1 authData) else [])\<rparr>)"

definition configure :: "platform \<Rightarrow> string \<Rightarrow> http_client \<Rightarrow> unit completion \<times> http_client" where
  "configure p u c =
     (let urlData = uriParse p u;
          scheme' = configure_scheme urlData
      in if scheme' = [] \<or> scheme' \<notin> set COMPATIBLE_SCHEMES \<or> \<not> truthy (uri_host urlData)
         then (Throw (JsError ''Given URL is not an HTTP client compatible resource''), c)
         else
           let c1 = c\<lparr>scheme := Some scheme'\<rparr>;
               c2 = (if truthy (uri_userinfo urlData)
                     then configure_auth (js_str (uri_userinfo urlData)) c1 else c1);
               c3 = c2\<lparr>host := uri_host urlData,
                        path := Some (if truthy (uri_path urlData) then js_str (uri_path urlData) else ''/''),
                        port := Some (configure_port (uri_port urlData))\<rparr>
           in case configureFromUrl p u c3 of
                Throw e \<Rightarrow> (Throw e, c3)
              | Return r \<Rightarrow> (Return (), c3\<lparr>requestInstance := Some r\<rparr>))"

text \<open>The constructor: the two given fields are stored, everything else is \<open>undefined\<close>.\<close>

definition new_HttpClient :: "platform \<Rightarrow> string \<Rightarrow> int \<Rightarrow> bool \<Rightarrow> js_error + http_client" where
  "new_HttpClient p u timeout_s raw =
     (case configure p u
             \<lparr>authUsername = None, authPassword = None, requestInstance = None, host = None,
              path = None, port = None, returnRawResponse = raw, scheme = None,
              timeout = timeout_s * 1000\<rparr> of
        (Throw e, _) \<Rightarrow> Inl e
      | (Return _, c) \<Rightarrow> Inr c)"


section \<open>HttpClient: query strings\<close>

definition uriUnreserved :: "char \<Rightarrow> bool" where
  "uriUnreserved c =
     (c \<in> set ''ABCDEFGHIJKLMNOPQRSTUVWXYZabcdefghijklmnopqrstuvwxyz0123456789-_.!~*'' \<or>
      c = CHR 0x27 \<or> c = CHR ''('' \<or> c = CHR '')'')"

definition hex_digit :: "nat \<Rightarrow> char" where
  "hex_digit n = (if n < 10 then char_of (48 + n) else char_of (55 + n))"

definition percent_byte :: "char \<Rightarrow> string" where
  "percent_byte c =
     [CHR ''%'', hex_digit ((of_char c :: nat) div 16), hex_digit ((of_char c :: nat) mod 16)]"

definition encodeURIComponent :: "string \<Rightarrow> string" where
  "encodeURIComponent s = concat (map (\<lambda>c. if uriUnreserved c then [c] else percent_byte c) s)"

fun replace_first :: "string \<Rightarrow> string \<Rightarrow> string \<Rightarrow> string" where
  \<comment> \<open>\<open>s.replace(pat, rep)\<close> with a string pattern: the first occurrence only\<close>
  "replace_first pat rep [] = (if pat = [] then rep else [])"
| "replace_first pat rep (c # cs) =
     (if take (length pat) (c # cs) = pat then rep @ drop (length pat) (c # cs)
      else c # replace_first pat rep cs)"

definition encode :: "string \<Rightarrow> string" where
  "encode v = replace_first ''%20'' ''+'' (encodeURIComponent v)"

fun String_nat :: "nat \<Rightarrow> string" where
  "String_nat n =
     (if n < 10 then [char_of (48 + n)] else String_nat (n div 10) @ [char_of (48 + n mod 10)])"

declare String_nat.simps [simp del]

definition String_int :: "int \<Rightarrow> string" where
  "String_int i = (if i < 0 then CHR ''-'' # String_nat (nat (- i)) else String_nat (nat i))"

text \<open>A parameter object is the list of its entries in the order \<open>Object.keys\<close> gives.\<close>

datatype query_params =
    QUndefined | QNull | QString string | QObject "(string \<times> param_value) list"

definition param_entry :: "string \<times> param_value \<Rightarrow> js_error + string" where
  "param_entry kv =
     (case snd kv of
        VBoolean b \<Rightarrow> Inr (encode (fst kv) @ (if b then ''=1'' else ''=0''))
      | VObject ts \<Rightarrow>
          (case ts of Inl e \<Rightarrow> Inl e | Inr s \<Rightarrow> Inr (encode (fst kv) @ ''='' @ encode s))
      | VNull \<Rightarrow> Inl (TypeError ''Cannot read properties of null'')
      | VString s \<Rightarrow> Inr (encode (fst kv) @ ''='' @ encode s)
      | VNumber n \<Rightarrow> Inr (encode (fst kv) @ ''='' @ encode (String_int n))
      | VUndefined \<Rightarrow> Inr (encode (fst kv) @ ''='' @ encode ''undefined''))"

fun paramsList :: "(string \<times> param_value) list \<Rightarrow> js_error + string list" where
  "paramsList [] = Inr []"
| "paramsList (kv # kvs) =
     (case param_entry kv of
        Inl e \<Rightarrow> Inl e
      | Inr s \<Rightarrow> (case paramsList kvs of Inl e \<Rightarrow> Inl e | Inr ss \<Rightarrow> Inr (s # ss)))"

definition buildRequestParameters :: "query_params \<Rightarrow> string \<Rightarrow> string option completion" where
  \<comment> \<open>the result \<open>None\<close> is \<open>null\<close>\<close>
  "buildRequestParameters params separator =
     (case params of
        QString s \<Rightarrow> Return None
      | QObject kvs \<Rightarrow>
          (case paramsList kvs of Inl e \<Rightarrow> Throw e | Inr ps \<Rightarrow> Return (Some (join separator ps)))
      | QNull \<Rightarrow> Throw (TypeError ''Cannot convert undefined or null to object'')
      | QUndefined \<Rightarrow> Throw (TypeError ''Cannot convert undefined or null to object''))"

section \<open>HttpClient: the timeout race\<close>

text \<open>
  The state of one \<open>fetchWithTimeout\<close> call: the returned promise, whether the timer is
  still scheduled, whether the fetch promise is still unsettled, whether the abort signal
  was raised, and how often the timer callback ran.
\<close>

record race =
  returned :: "response promise"
  timer_scheduled :: bool
  fetch_unsettled :: bool
  abort_signalled :: bool
  timer_callback_runs :: nat

definition settle :: "response promise \<Rightarrow> response promise \<Rightarrow> response promise" where
  \<comment> \<open>\<open>resolve\<close> and \<open>reject\<close> change a pending promise only\<close>
  "settle v pr = (case pr of Pending \<Rightarrow> v | _ \<Rightarrow> pr)"

definition executor :: "platform \<Rightarrow> fetch_run \<Rightarrow> race" where
  \<comment> \<open>the body of the promise: schedule the timer, call \<open>fetch\<close>, attach the handlers\<close>
  "executor p run =
     (case setTimeout_throws p of
        Some e \<Rightarrow> \<lparr>returned = Rejected e, timer_scheduled = False, fetch_unsettled = False,
                   abort_signalled = False, timer_callback_runs = 0\<rparr>
      | None \<Rightarrow>
          (case fetch_throws run of
             Some e \<Rightarrow> \<lparr>returned = Rejected e, timer_scheduled = True, fetch_unsettled = False,
                        abort_signalled = False, timer_callback_runs = 0\<rparr>
           | None \<Rightarrow> \<lparr>returned = Pending, timer_scheduled = True, fetch_unsettled = True,
                      abort_signalled = False, timer_callback_runs = 0\<rparr>))"

fun deliver :: "platform \<Rightarrow> race \<Rightarrow> event \<Rightarrow> race" where
  "deliver p s (FetchResolved r) =
     (if fetch_unsettled s
      then s\<lparr>fetch_unsettled := False, timer_scheduled := False,
             returned := settle (Resolved r) (returned s)\<rparr>
      else s)"
| "deliver p s (FetchRejected e) =
     (if fetch_unsettled s
      then s\<lparr>fetch_unsettled := False, returned := settle (Rejected e) (returned s)\<rparr>
      else s)"
| "deliver p s TimerFired =
     (if \<not> timer_scheduled s then s
      else if has_AbortController p
      then s\<lparr>timer_scheduled := False, abort_signalled := True,
             timer_callback_runs := Suc (timer_callback_runs s)\<rparr>
      else s\<lparr>timer_scheduled := False,
             returned := settle (Rejected (JsError ''Timeout occurred'')) (returned s),
             timer_callback_runs := Suc (timer_callback_runs s)\<rparr>)"

definition race_after :: "platform \<Rightarrow> fetch_run \<Rightarrow> race" where
  "race_after p run = foldl (deliver p) (executor p run) (deliveries run)"

definition fetchWithTimeout :: "platform \<Rightarrow> js_request option \<Rightarrow> request_init \<Rightarrow> response promise" where
  "fetchWithTimeout p request additionalRequestArgs =
     (let args = (if has_AbortController p
                  then additionalRequestArgs\<lparr>init_signal := True\<rparr> else additionalRequestArgs)
      in returned (race_after p (fetch p request args)))"

fun first_settlement :: "event list \<Rightarrow> response promise" where
  "first_settlement [] = Pending"
| "first_settlement (FetchResolved r # evs) = Resolved r"
| "first_settlement (FetchRejected e # evs) = Rejected e"
| "first_settlement (TimerFired # evs) = first_settlement evs"

definition fetch_direct :: "platform \<Rightarrow> js_request option \<Rightarrow> request_init \<Rightarrow> response promise" where
  \<comment> \<open>\<open>await fetch(request, additionalRequestArgs)\<close> with no timer\<close>
  "fetch_direct p request additionalRequestArgs =
     (let run = fetch p request additionalRequestArgs
      in case fetch_throws run of Some e \<Rightarrow> Rejected e | None \<Rightarrow> first_settlement (deliveries run))"

section \<open>HttpClient: requests\<close>

datatype envelope_body = BodyNull | BodyError js_error | BodyBytes string | BodyJson json

text \<open>The response envelope; \<open>None\<close> in \<open>code\<close> and \<open>headers\<close> is \<open>undefined\<close>.\<close>

record envelope =
  code :: "nat option"
  headers :: "js_headers option"
  body :: envelope_body
  rawResponse :: "response option"

record request_args =
  args_headers :: js_headers
  args_params :: "string option"
  args_separator :: "string option"
  args_body :: "body_init option"

text \<open>The \<open>data\<close> argument; \<open>DOther\<close> is \<open>null\<close>, a number or a boolean.\<close>

datatype request_data =
    DUndefined | DOther | DString string | DBlob string | DArrayBuffer string
  | DReadableStream string | DObject "(string \<times> param_value) list"

subsection \<open>The \<open>Headers\<close> object\<close>

definition headers_has :: "string \<Rightarrow> js_headers \<Rightarrow> bool" where
  "headers_has name h = (toLowerCase name \<in> fst ` set h)"

fun set_first :: "string \<Rightarrow> string \<Rightarrow> js_headers \<Rightarrow> js_headers" where
  "set_first k v [] = [(k, v)]"
| "set_first k v (kv # h) =
     (if fst kv = k then (k, v) # filter (\<lambda>x. fst x \<noteq> k) h else kv # set_first k v h)"

definition headers_set :: "string \<Rightarrow> string \<Rightarrow> js_headers \<Rightarrow> js_headers" where
  "headers_set name v h = set_first (toLowerCase name) v h"

subsection \<open>The low-level send\<close>

definition request_url :: "string \<Rightarrow> http_client \<Rightarrow> string" where
  \<comment> \<open>the URL built for a query string\<close>
  "request_url params c =
     (let u = js_str (scheme c) @ ''://'' @ js_str (host c) @ js_str (path c);
          u' = (if CHR ''?'' \<notin> set params then u @ ''?'' else u)
      in u' @ params)"

definition endsWith :: "string \<Rightarrow> string \<Rightarrow> bool" where
  "endsWith s suffix =
     (length suffix \<le> length s \<and> drop (length s - length suffix) s = suffix)"

definition request_url_1_0 :: "string \<Rightarrow> string option \<Rightarrow> http_client \<Rightarrow> string" where
  \<comment> \<open>the same URL in the older \<open>http-client.ts\<close>, which ends it with the separator\<close>
  "request_url_1_0 params separator c =
     (let u = js_str (scheme c) @ ''://'' @ js_str (host c) @ js_str (path c);
          u' = (if CHR ''?'' \<notin> set params then u @ ''?'' else u);
          u'' = u' @ params
      in if \<not> endsWith params (js_str separator) then u'' @ js_str separator else u'')"

definition request_target :: "platform \<Rightarrow> request_args \<Rightarrow> http_client \<Rightarrow> js_request option completion" where
  \<comment> \<open>the first argument of \<open>fetch\<close>: a new handle for a query string, else the stored one\<close>
  "request_target p requestArgs c =
     (if truthy (args_params requestArgs)
      then (case configureFromUrl p (request_url (js_str (args_params requestArgs)) c) c of
              Throw e \<Rightarrow> Throw e | Return r \<Rightarrow> Return (Some r))
      else Return (requestInstance c))"

definition body_truthy :: "body_init option \<Rightarrow> bool" where
  "body_truthy b = (case b of None \<Rightarrow> False | Some (BodyString s) \<Rightarrow> s \<noteq> [] | Some _ \<Rightarrow> True)"

definition additionalRequestArgs :: "string \<Rightarrow> request_args \<Rightarrow> request_init" where
  "additionalRequestArgs method requestArgs =
     \<lparr>init_method = method, init_headers = args_headers requestArgs,
      init_body = (if body_truthy (args_body requestArgs) then args_body requestArgs else None),
      init_signal = False\<rparr>"

definition normalise_name :: "string \<Rightarrow> string" where
  \<comment> \<open>\<open>name.toLowerCase().replace(/-/g, '_')\<close>\<close>
  "normalise_name name = map (\<lambda>ch. if ch = CHR ''-'' then CHR ''_'' else ch) (toLowerCase name)"

fun assign :: "string \<Rightarrow> string \<Rightarrow> js_headers \<Rightarrow> js_headers" where
  \<comment> \<open>\<open>obj[k] = v\<close> on a plain object\<close>
  "assign k v [] = [(k, v)]"
| "assign k v (kv # h) = (if fst kv = k then (k, v) # h else kv # assign k v h)"

definition responseHeaders :: "header_iteration \<Rightarrow> js_headers" where
  "responseHeaders it =
     (case it of
        ViaForEach hs \<Rightarrow> foldl (\<lambda>acc nv. assign (normalise_name (fst nv)) (snd nv) acc) [] hs
      | ViaEntries hs \<Rightarrow> foldl (\<lambda>acc nv. assign (normalise_name (fst nv)) (snd nv) acc) [] hs
      | NoIteration \<Rightarrow> [])"

definition status_error :: "response \<Rightarrow> js_error" where
  \<comment> \<open>\<open>new Error(String(response.status) + response.statusText)\<close>\<close>
  "status_error r = JsError (String_nat (status r) @ statusText r)"

definition response_envelope :: "string \<Rightarrow> http_client \<Rightarrow> response \<Rightarrow> envelope promise" where
  \<comment> \<open>the part of \<open>_request\<close> after the response has arrived\<close>
  "response_envelope method c r =
     (let ret = \<lparr>code = Some (status r), headers = Some (responseHeaders (response_headers r)),
                 body = BodyNull,
                 rawResponse = (if returnRawResponse c then Some r else None)\<rparr>
      in if \<not> ok r then Resolved (ret\<lparr>body := BodyError (status_error r)\<rparr>)
         else if method \<noteq> ''HEAD'' \<and> \<not> returnRawResponse c
         then (case blob r of
                 Pending \<Rightarrow> Pending
               | Rejected e \<Rightarrow> Rejected e
               | Resolved b \<Rightarrow> Resolved (ret\<lparr>body := BodyBytes b\<rparr>))
         else Resolved ret)"

definition send :: "platform \<Rightarrow> http_client \<Rightarrow> js_request option \<Rightarrow> request_init \<Rightarrow> response promise" where
  "send p c request init =
     (if timeout c > 0 then fetchWithTimeout p request init else fetch_direct p request init)"

definition HttpClient__request :: "platform \<Rightarrow> string \<Rightarrow> request_args \<Rightarrow> http_client \<Rightarrow> envelope promise" where
  \<comment> \<open>the source's \<open>_request\<close>\<close>
  "HttpClient__request p method requestArgs c =
     (case request_target p requestArgs c of
        Throw e \<Rightarrow> Rejected e
      | Return request \<Rightarrow>
          (case send p c request (additionalRequestArgs method requestArgs) of
             Pending \<Rightarrow> Pending
           | Rejected e \<Rightarrow> Rejected e
           | Resolved r \<Rightarrow> response_envelope method c r))"

subsection \<open>The entry point\<close>

text \<open>
  The body of the \<open>try\<close> block of \<open>request\<close>. It changes the headers of the stored request
  in place, so it returns the client too. \<open>lowlevel\<close> is the \<open>_request\<close> of the instance:
  a subclass overrides it.
\<close>

definition with_headers :: "js_headers \<Rightarrow> http_client \<Rightarrow> http_client" where
  "with_headers h c =
     c\<lparr>requestInstance := map_option (\<lambda>r. r\<lparr>request_headers := h\<rparr>) (requestInstance c)\<rparr>"

definition form_headers :: "request_data \<Rightarrow> js_headers \<Rightarrow> js_headers" where
  \<comment> \<open>an object payload is sent form-encoded unless a content type is set\<close>
  "form_headers data h =
     (case data of
        DObject kvs \<Rightarrow>
          (if \<not> headers_has ''content-type'' h
           then headers_set ''Content-Type'' ''application/x-www-form-urlencoded'' h else h)
      | _ \<Rightarrow> h)"

definition data_body :: "request_data \<Rightarrow> body_init option completion" where
  "data_body data =
     (case data of
        DString s \<Rightarrow> Return (Some (BodyString s))
      | DBlob b \<Rightarrow> Return (Some (BodyBlob b))
      | DArrayBuffer b \<Rightarrow> Return (Some (BodyArrayBuffer b))
      | DReadableStream b \<Rightarrow> Return (Some (BodyStream b))
      | DObject kvs \<Rightarrow>
          (case buildRequestParameters (QObject kvs) ''&'' of
             Throw e \<Rightarrow> Throw e
           | Return s \<Rightarrow> Return (map_option BodyString s))
      | DOther \<Rightarrow> Return None
      | DUndefined \<Rightarrow> Return None)"

definition auth_headers :: "platform \<Rightarrow> http_client \<Rightarrow> js_headers \<Rightarrow> js_headers completion" where
  "auth_headers p c h =
     (if truthy (authUsername c)
      then (case btoa p (js_str (authUsername c) @ '':'' @ js_str (authPassword c)) of
              Inl e \<Rightarrow> Throw e
            | Inr cred \<Rightarrow> Return (headers_set ''Authorization'' (''Basic '' @ cred) h))
      else Return h)"

definition string_params :: "query_params \<Rightarrow> string \<Rightarrow> string option \<times> string option" where
  \<comment> \<open>\<open>params\<close> and \<open>separator\<close> are attached for a string only\<close>
  "string_params params separator =
     (case params of QString s \<Rightarrow> (Some s, Some separator) | _ \<Rightarrow> (None, None))"

definition request_arguments ::
  "platform \<Rightarrow> string \<Rightarrow> query_params \<Rightarrow> request_data \<Rightarrow> http_client \<Rightarrow> request_args completion \<times> http_client" where
  \<comment> \<open>the statements of the \<open>try\<close> block before \<open>_request\<close> is called\<close>
  "request_arguments p separator params data c =
     (case requestInstance c of
        None \<Rightarrow> (Throw (TypeError ''Cannot read properties of undefined''), c)
      | Some inst \<Rightarrow>
          (let h1 = form_headers data (request_headers inst)
           in case data_body data of
                Throw e \<Rightarrow> (Throw e, with_headers h1 c)
              | Return b \<Rightarrow>
                  (case auth_headers p c h1 of
                     Throw e \<Rightarrow> (Throw e, with_headers h1 c)
                   | Return h2 \<Rightarrow>
                       (Return \<lparr>args_headers = h2,
                                args_params = fst (string_params params separator),
                                args_separator = snd (string_params params separator),
                                args_body = b\<rparr>,
                        with_headers h2 c))))"

definition request_try ::
  "(string \<Rightarrow> request_args \<Rightarrow> http_client \<Rightarrow> envelope promise) \<Rightarrow> platform \<Rightarrow>
   string \<Rightarrow> string \<Rightarrow> query_params \<Rightarrow> request_data \<Rightarrow> http_client \<Rightarrow> envelope promise \<times> http_client" where
  "request_try lowlevel p method separator params data c =
     (case request_arguments p separator params data c of
        (Throw e, c') \<Rightarrow> (Rejected e, c')
      | (Return requestArgs, c') \<Rightarrow> (lowlevel method requestArgs c', c'))"

definition caught :: "js_error \<Rightarrow> envelope" where
  \<comment> \<open>\<open>{ code: undefined, headers: undefined, body: handledException }\<close>\<close>
  "caught e = \<lparr>code = None, headers = None, body = BodyError e, rawResponse = None\<rparr>"

definition request_catch ::
  "(string \<Rightarrow> request_args \<Rightarrow> http_client \<Rightarrow> envelope promise) \<Rightarrow> platform \<Rightarrow>
   string \<Rightarrow> string \<Rightarrow> query_params \<Rightarrow> request_data \<Rightarrow> http_client \<Rightarrow> envelope promise \<times> http_client" where
  \<comment> \<open>\<open>try { ... } catch (handledException) { ... }\<close> around the block above\<close>
  "request_catch lowlevel p method separator params data c =
     (case request_try lowlevel p method separator params data c of
        (Rejected e, c') \<Rightarrow> (Resolved (caught e), c')
      | (Resolved env, c') \<Rightarrow> (Resolved env, c')
      | (Pending, c') \<Rightarrow> (Pending, c'))"

definition HttpClient_request ::
  "platform \<Rightarrow> string \<Rightarrow> string \<Rightarrow> query_params \<Rightarrow> request_data \<Rightarrow> http_client \<Rightarrow> envelope promise \<times> http_client" where
  "HttpClient_request p method separator params data c =
     request_catch (HttpClient__request p) p method separator params data c"

subsection \<open>Verb helpers\<close>

definition verb ::
  "platform \<Rightarrow> string \<Rightarrow> query_params \<Rightarrow> string \<Rightarrow> request_data \<Rightarrow> http_client \<Rightarrow> envelope promise \<times> http_client" where
  \<comment> \<open>the two lines every helper consists of; a throw outside \<open>request\<close> rejects the helper\<close>
  "verb p method params separator data c =
     (case buildRequestParameters params separator of
        Throw e \<Rightarrow> (Rejected e, c)
      | Return built \<Rightarrow>
          HttpClient_request p method separator
            (case built of None \<Rightarrow> QNull | Some s \<Rightarrow> QString s) data c)"

definition requestDelete ::
  "platform \<Rightarrow> query_params \<Rightarrow> string \<Rightarrow> request_data \<Rightarrow> http_client \<Rightarrow> envelope promise \<times> http_client" where
  "requestDelete p params separator data c = verb p ''DELETE'' params separator data c"

definition requestGet ::
  "platform \<Rightarrow> query_params \<Rightarrow> string \<Rightarrow> http_client \<Rightarrow> envelope promise \<times> http_client" where
  "requestGet p params separator c = verb p ''GET'' params separator DUndefined c"

definition requestHead ::
  "platform \<Rightarrow> query_params \<Rightarrow> string \<Rightarrow> http_client \<Rightarrow> envelope promise \<times> http_client" where
  "requestHead p params separator c = verb p ''HEAD'' params separator DUndefined c"

definition requestPatch ::
  "platform \<Rightarrow> request_data \<Rightarrow> query_params \<Rightarrow> string \<Rightarrow> http_client \<Rightarrow> envelope promise \<times> http_client" where
  "requestPatch p data params separator c = verb p ''PATCH'' params separator data c"

definition requestPost ::
  "platform \<Rightarrow> request_data \<Rightarrow> query_params \<Rightarrow> string \<Rightarrow> http_client \<Rightarrow> envelope promise \<times> http_client" where
  "requestPost p data params separator c = verb p ''POST'' params separator data c"

definition requestPut ::
  "platform \<Rightarrow> request_data \<Rightarrow> query_params \<Rightarrow> string \<Rightarrow> http_client \<Rightarrow> envelope promise \<times> http_client" where
  "requestPut p data params separator c = verb p ''PUT'' params separator data c"

definition requestOptions ::
  "platform \<Rightarrow> query_params \<Rightarrow> string \<Rightarrow> request_data \<Rightarrow> http_client \<Rightarrow> envelope promise \<times> http_client" where
  "requestOptions p params separator data c = verb p ''OPTIONS'' params separator data c"

definition requestTrace ::
  "platform \<Rightarrow> query_params \<Rightarrow> string \<Rightarrow> http_client \<Rightarrow> envelope promise \<times> http_client" where
  "requestTrace p params separator c = verb p ''TRACE'' params separator DUndefined c"

section \<open>HttpJsonClient\<close>

definition new_HttpJsonClient :: "platform \<Rightarrow> string \<Rightarrow> int \<Rightarrow> js_error + http_client" where
  "new_HttpJsonClient p u timeout_s = new_HttpClient p u timeout_s True"

subsection \<open>The variant that overrides \<open>_request\<close>\<close>

definition HttpJsonClient__request :: "platform \<Rightarrow> string \<Rightarrow> request_args \<Rightarrow> http_client \<Rightarrow> envelope promise" where
  "HttpJsonClient__request p method requestArgs c =
     (case HttpClient__request p method requestArgs c of
        Pending \<Rightarrow> Pending
      | Rejected e \<Rightarrow> Rejected e
      | Resolved ret \<Rightarrow>
          (case rawResponse ret of
             None \<Rightarrow> Resolved ret
           | Some r \<Rightarrow>
               (case json r of
                  Pending \<Rightarrow> Pending
                | Rejected e \<Rightarrow> Rejected e
                | Resolved v \<Rightarrow> Resolved (ret\<lparr>body := BodyJson v, rawResponse := None\<rparr>))))"

definition json_accept :: "js_headers \<Rightarrow> js_headers" where
  "json_accept h =
     (if \<not> headers_has ''accept'' h then headers_set ''accept'' ''application/json'' h else h)"

definition json_content_type :: "platform \<Rightarrow> js_headers \<Rightarrow> js_headers completion" where
  "json_content_type p h =
     (if \<not> headers_has ''content-type'' h
      then (case characterSet p of
              Throw e \<Rightarrow> Throw e
            | Return cs \<Rightarrow>
                Return (headers_set ''content-type''
                          (''application/json'' @ (if truthy cs then ''; charset='' @ js_str cs else [])) h))
      else Return h)"

definition data_object :: "request_data \<Rightarrow> (string \<times> param_value) list option" where
  \<comment> \<open>\<open>data && data instanceof Object\<close>: the entries of the object; binary payloads are
      objects with no entries of their own\<close>
  "data_object data =
     (case data of
        DObject kvs \<Rightarrow> Some kvs
      | DBlob b \<Rightarrow> Some []
      | DArrayBuffer b \<Rightarrow> Some []
      | DReadableStream b \<Rightarrow> Some []
      | _ \<Rightarrow> None)"

definition HttpJsonClient_request ::
  "platform \<Rightarrow> string \<Rightarrow> string \<Rightarrow> query_params \<Rightarrow> request_data \<Rightarrow> http_client \<Rightarrow> envelope promise \<times> http_client" where
  "HttpJsonClient_request p method separator params data c =
     (case data_object data of
        None \<Rightarrow> request_catch (HttpJsonClient__request p) p method separator params data c
      | Some kvs \<Rightarrow>
          (case requestInstance c of
             None \<Rightarrow> (Rejected (TypeError ''Cannot read properties of undefined''), c)
           | Some inst \<Rightarrow>
               (case json_content_type p (json_accept (request_headers inst)) of
                  Throw e \<Rightarrow> (Rejected e, with_headers (json_accept (request_headers inst)) c)
                | Return h \<Rightarrow>
                    (case JSON_stringify p kvs of
                       Inl e \<Rightarrow> (Rejected e, with_headers h c)
                     | Inr s \<Rightarrow>
                         request_catch (HttpJsonClient__request p) p method separator params
                           (DString s) (with_headers h c)))))"

subsection \<open>The variant that overrides \<open>newResponse\<close>\<close>

fun json_pattern_at :: "string \<Rightarrow> bool" where
  \<comment> \<open>\<open>application\/json(;|$)\<close> matched at the start of the text, ignoring case\<close>
  "json_pattern_at s =
     (toLowerCase (take 16 s) = ''application/json'' \<and>
      (drop 16 s = [] \<or> take 1 (drop 16 s) = '';''))"

fun json_pattern_test :: "string \<Rightarrow> bool" where
  \<comment> \<open>\<open>(/application\/json(;|$)/i).test(s)\<close>: a match at any position\<close>
  "json_pattern_test [] = False"
| "json_pattern_test (x # xs) = (json_pattern_at (x # xs) \<or> json_pattern_test xs)"

definition handleJsonResponse :: "envelope \<Rightarrow> envelope promise" where
  "handleJsonResponse resp =
     (case rawResponse resp of
        None \<Rightarrow> Rejected (TypeError ''Cannot read properties of undefined'')
      | Some r \<Rightarrow>
          (case json r of
             Pending \<Rightarrow> Pending
           | Rejected e \<Rightarrow> Rejected e
           | Resolved v \<Rightarrow> Resolved (resp\<lparr>body := BodyJson v, rawResponse := None\<rparr>)))"

definition content_type_header :: "envelope \<Rightarrow> string option completion" where
  \<comment> \<open>\<open>_return.headers.content_type\<close>\<close>
  "content_type_header ret =
     (case headers ret of
        None \<Rightarrow> Throw (TypeError ''Cannot read properties of undefined'')
      | Some hs \<Rightarrow> Return (map_of hs ''content_type''))"

text \<open>
  \<open>super_newResponse\<close> is the \<open>newResponse\<close> of the base class, which this variant of the
  wrapper calls first; the base class that has it is not among the sources, so its result
  is taken as given.
\<close>

definition HttpJsonClient_newResponse ::
  "(string \<Rightarrow> request_args \<Rightarrow> response \<Rightarrow> envelope promise) \<Rightarrow>
   string \<Rightarrow> request_args \<Rightarrow> response \<Rightarrow> envelope promise" where
  "HttpJsonClient_newResponse super_newResponse method requestArgs r =
     (case super_newResponse method requestArgs r of
        Pending \<Rightarrow> Pending
      | Rejected e \<Rightarrow> Rejected e
      | Resolved ret \<Rightarrow>
          (case content_type_header ret of
             Throw e \<Rightarrow> Rejected e
           | Return ct \<Rightarrow>
               if truthy ct \<and> json_pattern_test (js_str ct)
               then handleJsonResponse ret else Resolved ret))"

section \<open>Reading a query string back\<close>

text \<open>
  The inverse a receiver of the query string applies to a key or value segment: every
  \<open>+\<close> is a space, then every \<open>%XX\<close> is the byte it names. It is not part of the client;
  it states what recovering the original from a segment means. A \<open>%\<close> that is not followed
  by two hexadecimal digits has no decoding.
\<close>

definition hex_value :: "char \<Rightarrow> nat option" where
  "hex_value c =
     (let n = (of_char c :: nat)
      in if 48 \<le> n \<and> n \<le> 57 then Some (n - 48)
         else if 65 \<le> n \<and> n \<le> 70 then Some (n - 55)
         else if 97 \<le> n \<and> n \<le> 102 then Some (n - 87)
         else None)"

fun percent_decode :: "string \<Rightarrow> string option" where
  "percent_decode [] = Some []"
| "percent_decode (c # cs) =
     (if c = CHR ''%''
      then (case cs of
              h # l # rest \<Rightarrow>
                (case (hex_value h, hex_value l, percent_decode rest) of
                   (Some a, Some b, Some t) \<Rightarrow> Some (char_of (16 * a + b) # t)
                 | _ \<Rightarrow> None)
            | _ \<Rightarrow> None)
      else map_option ((#) c) (percent_decode cs))"

definition decode_segment :: "string \<Rightarrow> string option" where
  "decode_segment s = percent_decode (map (\<lambda>c. if c = CHR ''+'' then CHR '' '' else c) s)"

section \<open>Example inputs\<close>

definition example_uri :: "string \<Rightarrow> uri_components" where
  "example_uri u =
     (if u = ''http://user:pa:ss@example.org:8080/api''
      then \<lparr>uri_scheme = Some ''http'', uri_userinfo = Some ''user:pa:ss'',
            uri_host = Some ''example.org'', uri_port = PortNumber (Num 8080),
            uri_path = Some ''/api''\<rparr>
      else if u = ''HTTPS://example.org''
      then \<lparr>uri_scheme = Some ''HTTPS'', uri_userinfo = None, uri_host = Some ''example.org'',
            uri_port = PortUndefined, uri_path = Some []\<rparr>
      else if u = ''ftp://example.org/''
      then \<lparr>uri_scheme = Some ''ftp'', uri_userinfo = None, uri_host = Some ''example.org'',
            uri_port = PortUndefined, uri_path = Some ''/''\<rparr>
      else \<lparr>uri_scheme = None, uri_userinfo = None, uri_host = None,
            uri_port = PortUndefined, uri_path = Some u\<rparr>)"

definition example_platform :: "bool \<Rightarrow> event list \<Rightarrow> platform" where
  \<comment> \<open>a platform with or without \<open>AbortController\<close> whose fetch is followed by the given events\<close>
  "example_platform ac evs =
     \<lparr>uriParse = example_uri, Request_refuses = (\<lambda>u. None), btoa = (\<lambda>s. Inr s),
      has_AbortController = ac, setTimeout_throws = None,
      fetch = (\<lambda>r i. \<lparr>fetch_throws = None, deliveries = evs\<rparr>),
      JSON_stringify = (\<lambda>kvs. Inr ''{}''), characterSet = Return (Some ''UTF-8'')\<rparr>"

definition example_client :: "int \<Rightarrow> bool \<Rightarrow> http_client" where
  \<comment> \<open>a client configured for \<open>http://example.org/api\<close>\<close>
  "example_client ms raw =
     \<lparr>authUsername = None, authPassword = None,
      requestInstance = Some \<lparr>url = ''http://example.org/api'', cache = ''default'',
                              credentials = ''include'', request_headers = [], mode = ''cors'',
                              redirect = ''follow''\<rparr>,
      host = Some ''example.org'', path = Some ''/api'', port = Some NaN,
      returnRawResponse = raw, scheme = Some ''http'', timeout = ms\<rparr>"

definition example_response :: "nat \<Rightarrow> bool \<Rightarrow> string \<Rightarrow> string \<Rightarrow> string promise \<Rightarrow> json promise \<Rightarrow> response" where
  "example_response st is_ok text ctype bytes decoded =
     \<lparr>status = st, ok = is_ok, statusText = text,
      response_headers = ViaForEach [(''Content-Type'', ctype)],
      blob = bytes, json = decoded\<rparr>"

definition echo_platform :: platform where
  \<comment> \<open>a platform whose fetch answers 200 with the URL it was asked for as the body\<close>
  "echo_platform =
     \<lparr>uriParse = example_uri, Request_refuses = (\<lambda>u. None), btoa = (\<lambda>s. Inr s),
      has_AbortController = False, setTimeout_throws = None,
      fetch = (\<lambda>r i. \<lparr>fetch_throws = None,
                         deliveries = [FetchResolved
                           \<lparr>status = 200, ok = True, statusText = ''OK'',
                            response_headers = NoIteration,
                            blob = Resolved (case r of None \<Rightarrow> [] | Some q \<Rightarrow> url q),
                            json = Pending\<rparr>]\<rparr>),
      JSON_stringify = (\<lambda>kvs. Inr ''{}''), characterSet = Return (Some ''UTF-8'')\<rparr>"

section \<open>Configuration: the stored fields\<close>

lemma split_on_unfold:
  "split_on c s = takeWhile (\<lambda>x. x \<noteq> c) s #
     (case dropWhile (\<lambda>x. x \<noteq> c) s of [] \<Rightarrow> [] | y # r \<Rightarrow> split_on c r)"
  by (induction s) (auto split: list.splits)

lemma js_split_2:
  "js_split c 2 s = takeWhile (\<lambda>x. x \<noteq> c) s #
     (case dropWhile (\<lambda>x. x \<noteq> c) s of [] \<Rightarrow> []
      | y # r \<Rightarrow> [takeWhile (\<lambda>x. x \<noteq> c) r])"
proof (cases "dropWhile (\<lambda>x. x \<noteq> c) s")
  case Nil
  have "split_on c s = [takeWhile (\<lambda>x. x \<noteq> c) s]"
    by (subst split_on_unfold) (simp add: Nil)
  then show ?thesis by (simp add: js_split_def Nil)
next
  case (Cons y r)
  obtain rest where r: "split_on c r = takeWhile (\<lambda>x. x \<noteq> c) r # rest"
    using split_on_unfold [of c r] by blast
  have "split_on c s = takeWhile (\<lambda>x. x \<noteq> c) s # takeWhile (\<lambda>x. x \<noteq> c) r # rest"
    by (subst split_on_unfold) (simp add: Cons r)
  then show ?thesis by (simp add: js_split_def Cons numeral_2_eq_2)
qed

lemma configure_auth_fields:
  "authUsername (configure_auth ui c) = Some (takeWhile (\<lambda>x. x \<noteq> CHR '':'') ui)"
  "authPassword (configure_auth ui c) =
     Some (case dropWhile (\<lambda>x. x \<noteq> CHR '':'') ui of [] \<Rightarrow> []
           | y # r \<Rightarrow> takeWhile (\<lambda>x. x \<noteq> CHR '':'') r)"
proof -
  show "authUsername (configure_auth ui c) = Some (takeWhile (\<lambda>x. x \<noteq> CHR '':'') ui)"
    by (simp add: configure_auth_def js_split_2 Let_def)
  show "authPassword (configure_auth ui c) =
     Some (case dropWhile (\<lambda>x. x \<noteq> CHR '':'') ui of [] \<Rightarrow> []
           | y # r \<Rightarrow> takeWhile (\<lambda>x. x \<noteq> CHR '':'') r)"
  proof (cases "dropWhile (\<lambda>x. x \<noteq> CHR '':'') ui")
    case Nil
    have "js_split CHR '':'' 2 ui = [takeWhile (\<lambda>x. x \<noteq> CHR '':'') ui]"
      by (simp only: js_split_2 Nil list.case)
    then show ?thesis
      by (simp only: configure_auth_def Let_def Nil list.case) simp
  next
    case (Cons y r)
    have "js_split CHR '':'' 2 ui =
        [takeWhile (\<lambda>x. x \<noteq> CHR '':'') ui, takeWhile (\<lambda>x. x \<noteq> CHR '':'') r]"
      by (simp only: js_split_2 Cons list.case)
    then show ?thesis
      by (simp only: configure_auth_def Let_def Cons list.case) simp
  qed
qed



lemma configure_scheme_compatible:
  "configure_scheme ud \<in> set COMPATIBLE_SCHEMES \<longleftrightarrow>
     (\<exists>s. uri_scheme ud = Some s \<and> (toLowerCase s = ''http'' \<or> toLowerCase s = ''https''))"
  by (cases "uri_scheme ud")
     (auto simp: configure_scheme_def COMPATIBLE_SCHEMES_def truthy_def js_str_def toLowerCase_def)


lemma configure_compatible:
  assumes "configure_scheme (uriParse p u) \<in> set COMPATIBLE_SCHEMES" "truthy (uri_host (uriParse p u))"
  shows "\<exists>c3. scheme c3 = Some (configure_scheme (uriParse p u)) \<and> host c3 = uri_host (uriParse p u)
     \<and> path c3 = Some (if truthy (uri_path (uriParse p u)) then js_str (uri_path (uriParse p u)) else ''/'')
     \<and> port c3 = Some (configure_port (uri_port (uriParse p u)))
     \<and> authUsername c3 = (if truthy (uri_userinfo (uriParse p u))
           then authUsername (configure_auth (js_str (uri_userinfo (uriParse p u))) c) else authUsername c)
     \<and> authPassword c3 = (if truthy (uri_userinfo (uriParse p u))
           then authPassword (configure_auth (js_str (uri_userinfo (uriParse p u))) c) else authPassword c)
     \<and> returnRawResponse c3 = returnRawResponse c \<and> timeout c3 = timeout c
     \<and> configure p u c =
          (case configureFromUrl p u c3 of
             Throw e \<Rightarrow> (Throw e, c3)
           | Return r \<Rightarrow> (Return (), c3\<lparr>requestInstance := Some r\<rparr>))"
proof -
  have ne: "configure_scheme (uriParse p u) \<noteq> []"
    using assms(1) by (auto simp: COMPATIBLE_SCHEMES_def)
  show ?thesis
    apply (simp only: configure_def Let_def)
    apply (simp only: ne assms simp_thms if_False)
    apply (rule exI, intro conjI)
            prefer 9
            apply (rule refl)
           apply (simp_all add: configure_auth_def Let_def)
    done
qed


lemma configure_stored:
  assumes "configure_scheme (uriParse p u) \<in> set COMPATIBLE_SCHEMES" "truthy (uri_host (uriParse p u))"
  shows "scheme (snd (configure p u c)) = Some (configure_scheme (uriParse p u))"
    and "host (snd (configure p u c)) = uri_host (uriParse p u)"
    and "path (snd (configure p u c)) =
           Some (if truthy (uri_path (uriParse p u)) then js_str (uri_path (uriParse p u)) else ''/'')"
    and "port (snd (configure p u c)) = Some (configure_port (uri_port (uriParse p u)))"
    and "authUsername (snd (configure p u c)) = (if truthy (uri_userinfo (uriParse p u))
           then authUsername (configure_auth (js_str (uri_userinfo (uriParse p u))) c) else authUsername c)"
    and "authPassword (snd (configure p u c)) = (if truthy (uri_userinfo (uriParse p u))
           then authPassword (configure_auth (js_str (uri_userinfo (uriParse p u))) c) else authPassword c)"
    and "fst (configure p u c) = (case Request_refuses p u of Some e \<Rightarrow> Throw e | None \<Rightarrow> Return ())"
proof -
  from configure_compatible [OF assms, of c] obtain c3 where
    f: "scheme c3 = Some (configure_scheme (uriParse p u))" "host c3 = uri_host (uriParse p u)"
       "path c3 = Some (if truthy (uri_path (uriParse p u)) then js_str (uri_path (uriParse p u)) else ''/'')"
       "port c3 = Some (configure_port (uri_port (uriParse p u)))"
       "authUsername c3 = (if truthy (uri_userinfo (uriParse p u))
           then authUsername (configure_auth (js_str (uri_userinfo (uriParse p u))) c) else authUsername c)"
       "authPassword c3 = (if truthy (uri_userinfo (uriParse p u))
           then authPassword (configure_auth (js_str (uri_userinfo (uriParse p u))) c) else authPassword c)"
    and r: "configure p u c =
          (case configureFromUrl p u c3 of
             Throw e \<Rightarrow> (Throw e, c3)
           | Return r \<Rightarrow> (Return (), c3\<lparr>requestInstance := Some r\<rparr>))"
    by blast
  have s: "snd (configure p u c) = c3 \<or> (\<exists>r. snd (configure p u c) = c3\<lparr>requestInstance := Some r\<rparr>)"
    by (cases "configureFromUrl p u c3") (auto simp: r)
  show "scheme (snd (configure p u c)) = Some (configure_scheme (uriParse p u))"
    using s f(1) by auto
  show "host (snd (configure p u c)) = uri_host (uriParse p u)"
    using s f(2) by auto
  show "path (snd (configure p u c)) =
           Some (if truthy (uri_path (uriParse p u)) then js_str (uri_path (uriParse p u)) else ''/'')"
    using s f(3) by auto
  show "port (snd (configure p u c)) = Some (configure_port (uri_port (uriParse p u)))"
    using s f(4) by auto
  show "authUsername (snd (configure p u c)) = (if truthy (uri_userinfo (uriParse p u))
           then authUsername (configure_auth (js_str (uri_userinfo (uriParse p u))) c) else authUsername c)"
    using s f(5) by auto
  show "authPassword (snd (configure p u c)) = (if truthy (uri_userinfo (uriParse p u))
           then authPassword (configure_auth (js_str (uri_userinfo (uriParse p u))) c) else authPassword c)"
    using s f(6) by auto
  show "fst (configure p u c) = (case Request_refuses p u of Some e \<Rightarrow> Throw e | None \<Rightarrow> Return ())"
    by (simp add: r configureFromUrl_def split: option.splits prod.splits)
qed





lemma takeWhile_before:
  assumes "c \<notin> set a"
  shows "takeWhile (\<lambda>x. x \<noteq> c) (a @ c # r) = a"
    and "dropWhile (\<lambda>x. x \<noteq> c) (a @ c # r) = c # r"
  using assms by (induction a) auto

text \<open>
  Claim C10. When the userinfo of a compatible URL has two or more colons, the stored user
  name is the text before the first colon and the stored password is the text between the
  first and the second colon; what follows the second colon is in neither field.
\<close>

theorem configure_userinfo_extra_colons:
  assumes "uriParse p u = ud"
    and "\<exists>s. uri_scheme ud = Some s \<and> (toLowerCase s = ''http'' \<or> toLowerCase s = ''https'')"
    and "\<exists>h. uri_host ud = Some h \<and> h \<noteq> []"
    and "uri_userinfo ud = Some (a @ CHR '':'' # b @ CHR '':'' # rest)"
    and "CHR '':'' \<notin> set a" and "CHR '':'' \<notin> set b"
  shows "authUsername (snd (configure p u c)) = Some a
       \<and> authPassword (snd (configure p u c)) = Some b"
proof -
  have a: "configure_scheme (uriParse p u) \<in> set COMPATIBLE_SCHEMES"
    using assms(1,2) by (simp add: configure_scheme_compatible)
  have h: "truthy (uri_host (uriParse p u))"
    using assms(1,3) by (auto simp: truthy_def)
  have t: "truthy (uri_userinfo (uriParse p u))"
    using assms(1,4) by (simp add: truthy_def)
  let ?ui = "a @ CHR '':'' # b @ CHR '':'' # rest"
  have u1: "takeWhile (\<lambda>x. x \<noteq> CHR '':'') ?ui = a"
    by (rule takeWhile_before(1) [OF assms(5)])
  have u2: "dropWhile (\<lambda>x. x \<noteq> CHR '':'') ?ui = CHR '':'' # b @ CHR '':'' # rest"
    by (rule takeWhile_before(2) [OF assms(5)])
  have u3: "takeWhile (\<lambda>x. x \<noteq> CHR '':'') (b @ CHR '':'' # rest) = b"
    by (rule takeWhile_before(1) [OF assms(6)])
  have ui: "js_str (uri_userinfo (uriParse p u)) = ?ui"
    using assms(1,4) by (simp add: js_str_def)
  show ?thesis
    by (simp only: configure_stored(5,6) [OF a h] t if_True ui configure_auth_fields u1 u2 u3 list.case)
qed

theorem configure_userinfo_extra_colons_witness:
  "authUsername (snd (configure (example_platform False []) ''http://user:pa:ss@example.org:8080/api''
                       (example_client 0 False))) = Some ''user''
   \<and> authPassword (snd (configure (example_platform False []) ''http://user:pa:ss@example.org:8080/api''
                       (example_client 0 False))) = Some ''pa''"
proof -
  have p1: "uriParse (example_platform False []) ''http://user:pa:ss@example.org:8080/api''
      = example_uri ''http://user:pa:ss@example.org:8080/api''"
    by (simp add: example_platform_def)
  have ui: "uri_userinfo (example_uri ''http://user:pa:ss@example.org:8080/api'')
      = Some (''user'' @ CHR '':'' # ''pa'' @ CHR '':'' # ''ss'')"
    by (simp add: example_uri_def)
  have lc: "toLowerCase ''http'' = ''http''"
    by code_simp
  show ?thesis
    using configure_userinfo_extra_colons [OF p1 _ _ ui, of "example_client 0 False"]
    by (simp add: example_uri_def lc)
qed

section \<open>The timeout race\<close>

lemma deliver_settled:
  "returned s \<noteq> Pending \<Longrightarrow> returned (deliver p s ev) = returned s"
  by (cases ev) (auto simp: settle_def split: promise.splits)

lemma deliver_unscheduled:
  assumes "\<not> timer_scheduled s"
  shows "\<not> timer_scheduled (deliver p s ev)"
    and "timer_callback_runs (deliver p s ev) = timer_callback_runs s"
    and "abort_signalled (deliver p s ev) = abort_signalled s"
  using assms by (cases ev; simp)+

lemma foldl_deliver_settled:
  "returned s \<noteq> Pending \<Longrightarrow> returned (foldl (deliver p) s evs) = returned s"
proof (induction evs arbitrary: s)
  case Nil
  then show ?case by simp
next
  case (Cons ev evs)
  have "returned (deliver p s ev) \<noteq> Pending"
    using Cons.prems by (simp add: deliver_settled)
  then have "returned (foldl (deliver p) (deliver p s ev) evs) = returned (deliver p s ev)"
    by (rule Cons.IH)
  then show ?case using Cons.prems by (simp add: deliver_settled)
qed

lemma foldl_deliver_unscheduled:
  "\<not> timer_scheduled s \<Longrightarrow>
     \<not> timer_scheduled (foldl (deliver p) s evs)
     \<and> timer_callback_runs (foldl (deliver p) s evs) = timer_callback_runs s
     \<and> abort_signalled (foldl (deliver p) s evs) = abort_signalled s"
proof (induction evs arbitrary: s)
  case Nil
  then show ?case by simp
next
  case (Cons ev evs)
  from Cons.IH [OF deliver_unscheduled(1) [OF Cons.prems, of p ev]]
  show ?case by (simp add: deliver_unscheduled(2,3) [OF Cons.prems])
qed

lemma executor_started:
  assumes "setTimeout_throws p = None" "fetch_throws run = None"
  shows "executor p run = \<lparr>returned = Pending, timer_scheduled = True, fetch_unsettled = True,
                      abort_signalled = False, timer_callback_runs = 0\<rparr>"
  using assms by (simp add: executor_def)

lemma race_fetch_first:
  assumes "setTimeout_throws p = None" "fetch_throws run = None"
    and "deliveries run = FetchResolved r # later"
  shows "returned (race_after p run) = Resolved r"
    and "\<not> timer_scheduled (race_after p run)"
    and "timer_callback_runs (race_after p run) = 0"
    and "\<not> abort_signalled (race_after p run)"
proof -
  let ?s = "deliver p (executor p run) (FetchResolved r)"
  have s: "returned ?s = Resolved r" "\<not> timer_scheduled ?s" "timer_callback_runs ?s = 0"
      "\<not> abort_signalled ?s"
    by (simp_all add: executor_started [OF assms(1,2)] settle_def)
  have ra: "race_after p run = foldl (deliver p) ?s later"
    by (simp add: race_after_def assms(3))
  show "returned (race_after p run) = Resolved r"
    using foldl_deliver_settled [of ?s p later] s(1) by (simp add: ra)
  show "\<not> timer_scheduled (race_after p run)"
    using foldl_deliver_unscheduled [OF s(2), where evs = later] by (simp add: ra)
  show "timer_callback_runs (race_after p run) = 0"
    using foldl_deliver_unscheduled [OF s(2), where evs = later] s(3) by (simp add: ra)
  show "\<not> abort_signalled (race_after p run)"
    using foldl_deliver_unscheduled [OF s(2), where evs = later] s(4) by (simp add: ra)
qed

lemma race_timer_first:
  assumes "setTimeout_throws p = None" "fetch_throws run = None"
    and "\<not> has_AbortController p"
    and "deliveries run = TimerFired # later"
  shows "returned (race_after p run) = Rejected (JsError ''Timeout occurred'')"
    and "timer_callback_runs (race_after p run) = 1"
proof -
  let ?s = "deliver p (executor p run) TimerFired"
  have s: "returned ?s = Rejected (JsError ''Timeout occurred'')" "\<not> timer_scheduled ?s"
      "timer_callback_runs ?s = 1"
    using assms(3) by (simp_all add: executor_started [OF assms(1,2)] settle_def)
  have ra: "race_after p run = foldl (deliver p) ?s later"
    by (simp add: race_after_def assms(4))
  show "returned (race_after p run) = Rejected (JsError ''Timeout occurred'')"
    using foldl_deliver_settled [of ?s p later] s(1) by (simp add: ra)
  show "timer_callback_runs (race_after p run) = 1"
    using foldl_deliver_unscheduled [OF s(2), where evs = later] s(3) by (simp add: ra)
qed

text \<open>
  Claim C2. In \<open>fetchWithTimeout\<close>, when the fetch resolves before the timer fires, the
  timer is cleared, the returned promise resolves with that response, and whatever the
  event loop delivers later the timer callback never runs; when there is no
  \<open>AbortController\<close> and the timer fires first, the returned promise rejects with the
  timeout error, and whatever the fetch delivers later does not change it.
\<close>

theorem fetchWithTimeout_race:
  assumes "setTimeout_throws p = None"
    and "fetch p request (if has_AbortController p then init\<lparr>init_signal := True\<rparr> else init) = run"
    and "fetch_throws run = None"
  shows "(deliveries run = FetchResolved r # later \<longrightarrow>
            fetchWithTimeout p request init = Resolved r
          \<and> \<not> timer_scheduled (race_after p run)
          \<and> timer_callback_runs (race_after p run) = 0)
       \<and> (\<not> has_AbortController p \<and> deliveries run = TimerFired # later \<longrightarrow>
            fetchWithTimeout p request init = Rejected (JsError ''Timeout occurred''))"
proof -
  have fw: "fetchWithTimeout p request init = returned (race_after p run)"
    using assms(2) by (simp add: fetchWithTimeout_def Let_def)
  show ?thesis
    using race_fetch_first [OF assms(1,3), of r later] race_timer_first [OF assms(1,3), of later]
    by (simp add: fw)
qed

theorem fetchWithTimeout_race_witness:
  "fetchWithTimeout
     (example_platform False [FetchResolved (example_response 200 True ''OK'' ''text/plain'' (Resolved ''ok'') Pending), TimerFired])
     None \<lparr>init_method = ''GET'', init_headers = [], init_body = None, init_signal = False\<rparr>
     = Resolved (example_response 200 True ''OK'' ''text/plain'' (Resolved ''ok'') Pending)
   \<and> fetchWithTimeout
     (example_platform False [TimerFired, FetchResolved (example_response 200 True ''OK'' ''text/plain'' (Resolved ''ok'') Pending)])
     None \<lparr>init_method = ''GET'', init_headers = [], init_body = None, init_signal = False\<rparr>
     = Rejected (JsError ''Timeout occurred'')"
proof -
  let ?r = "example_response 200 True ''OK'' ''text/plain'' (Resolved ''ok'') Pending"
  let ?i = "\<lparr>init_method = ''GET'', init_headers = [], init_body = None, init_signal = False\<rparr>"
  have a: "setTimeout_throws (example_platform False evs) = None" for evs
    by (simp add: example_platform_def)
  have b: "fetch (example_platform False evs) None
             (if has_AbortController (example_platform False evs) then ?i\<lparr>init_signal := True\<rparr> else ?i)
           = \<lparr>fetch_throws = None, deliveries = evs\<rparr>" for evs
    by (simp add: example_platform_def)
  have c: "fetch_throws \<lparr>fetch_throws = None, deliveries = evs\<rparr> = None" for evs :: "event list"
    by simp
  have d: "\<not> has_AbortController (example_platform False evs)" for evs
    by (simp add: example_platform_def)
  show ?thesis
    using fetchWithTimeout_race [OF a b c, of "[FetchResolved ?r, TimerFired]" ?r "[TimerFired]"]
          fetchWithTimeout_race [OF a b c, of "[TimerFired, FetchResolved ?r]" ?r "[FetchResolved ?r]"]
          d
    by simp
qed

section \<open>The request target\<close>

lemma configureFromUrl_accepts:
  "Request_refuses p u = None \<Longrightarrow> \<exists>r. configureFromUrl p u c = Return r \<and> url r = u"
  by (simp add: configureFromUrl_def split: option.splits prod.splits)

lemma request_url_parts:
  "request_url params c =
     js_str (scheme c) @ ''://'' @ js_str (host c) @ js_str (path c)
       @ (if CHR ''?'' \<in> set params then [] else ''?'') @ params"
  by (simp add: request_url_def Let_def)

lemma request_url_1_0_parts:
  "request_url_1_0 params separator c =
     request_url params c @ (if endsWith params (js_str separator) then [] else js_str separator)"
  by (simp add: request_url_1_0_def request_url_def Let_def)

text \<open>
  Claim C9, as stated, fails on the older \<open>http-client.ts\<close>: for the query string \<open>a=1\<close>
  and the separator \<open>;\<close> the URL it builds ends with the separator.
\<close>

theorem request_url_1_0_counterexample:
  "request_url_1_0 ''a=1'' (Some '';'') (example_client 30000 False) = ''http://example.org/api?a=1;''
   \<and> request_url_1_0 ''a=1'' (Some '';'') (example_client 30000 False) \<noteq> ''http://example.org/api?a=1''"
  by (simp add: request_url_1_0_def example_client_def js_str_def endsWith_def Let_def)

text \<open>
  Claim C9, amended. For a non-empty query string the target of \<open>_request\<close> is a new handle
  whose URL is scheme, \<open>://\<close>, host and path, then \<open>?\<close> exactly when the query string has
  none, then the query string; the newer variant adds nothing else, the older variant then
  appends the separator unless the query string already ends with it. With no query string
  the stored request handle is the target, unchanged.
\<close>

theorem request_target_url:
  "(args_params requestArgs = Some params \<and> params \<noteq> [] \<and> Request_refuses p (request_url params c) = None
      \<longrightarrow> (\<exists>r. request_target p requestArgs c = Return (Some r)
             \<and> url r = js_str (scheme c) @ ''://'' @ js_str (host c) @ js_str (path c)
                       @ (if CHR ''?'' \<in> set params then [] else ''?'') @ params))
   \<and> (args_params requestArgs = None \<or> args_params requestArgs = Some []
      \<longrightarrow> request_target p requestArgs c = Return (requestInstance c))
   \<and> request_url_1_0 params separator c =
        js_str (scheme c) @ ''://'' @ js_str (host c) @ js_str (path c)
          @ (if CHR ''?'' \<in> set params then [] else ''?'') @ params
          @ (if endsWith params (js_str separator) then [] else js_str separator)"
proof (intro conjI impI)
  assume a: "args_params requestArgs = Some params \<and> params \<noteq> [] \<and> Request_refuses p (request_url params c) = None"
  then obtain r where r: "configureFromUrl p (request_url params c) c = Return r" "url r = request_url params c"
    using configureFromUrl_accepts by blast
  have "request_target p requestArgs c = Return (Some r)"
    using a r(1) by (simp add: request_target_def truthy_def js_str_def)
  then show "\<exists>r. request_target p requestArgs c = Return (Some r)
             \<and> url r = js_str (scheme c) @ ''://'' @ js_str (host c) @ js_str (path c)
                       @ (if CHR ''?'' \<in> set params then [] else ''?'') @ params"
    using r(2) by (simp add: request_url_parts)
next
  assume "args_params requestArgs = None \<or> args_params requestArgs = Some []"
  then show "request_target p requestArgs c = Return (requestInstance c)"
    by (auto simp: request_target_def truthy_def)
next
  show "request_url_1_0 params separator c =
        js_str (scheme c) @ ''://'' @ js_str (host c) @ js_str (path c)
          @ (if CHR ''?'' \<in> set params then [] else ''?'') @ params
          @ (if endsWith params (js_str separator) then [] else js_str separator)"
    by (simp add: request_url_1_0_parts request_url_parts)
qed

theorem request_target_url_witness:
  "(\<exists>r. request_target (example_platform False [])
           \<lparr>args_headers = [], args_params = Some ''a=1'', args_separator = Some '';'', args_body = None\<rparr>
           (example_client 30000 False) = Return (Some r)
        \<and> url r = ''http://example.org/api?a=1'')
   \<and> request_target (example_platform False [])
           \<lparr>args_headers = [], args_params = None, args_separator = None, args_body = None\<rparr>
           (example_client 30000 False) = Return (requestInstance (example_client 30000 False))"
  using request_target_url [of "\<lparr>args_headers = [], args_params = Some ''a=1'', args_separator = Some '';'', args_body = None\<rparr>"
          "''a=1''" "example_platform False []" "example_client 30000 False" "Some '';''"]
        request_target_url [of "\<lparr>args_headers = [], args_params = None, args_separator = None, args_body = None\<rparr>"
          "''a=1''" "example_platform False []" "example_client 30000 False" "Some '';''"]
  by (simp add: example_platform_def example_client_def js_str_def)

section \<open>The entry point never rejects\<close>

lemma request_catch_cases:
  "fst (request_catch lowlevel p method separator params data c) =
     (case fst (request_arguments p separator params data c) of
        Throw e \<Rightarrow> Resolved (caught e)
      | Return requestArgs \<Rightarrow>
          (case lowlevel method requestArgs (snd (request_arguments p separator params data c)) of
             Pending \<Rightarrow> Pending
           | Rejected e \<Rightarrow> Resolved (caught e)
           | Resolved env \<Rightarrow> Resolved env))"
  by (cases "request_arguments p separator params data c")
     (simp add: request_catch_def request_try_def split: completion.splits promise.splits)

lemma request_catch_not_rejected:
  "fst (request_catch lowlevel p method separator params data c) \<noteq> Rejected e"
  by (simp add: request_catch_cases split: completion.splits promise.splits)

lemma with_headers_fields:
  "returnRawResponse (with_headers h c) = returnRawResponse c"
  "timeout (with_headers h c) = timeout c"
  "scheme (with_headers h c) = scheme c"
  "host (with_headers h c) = host c"
  "path (with_headers h c) = path c"
  by (simp_all add: with_headers_def)

lemma request_arguments_fields:
  "returnRawResponse (snd (request_arguments p separator params data c)) = returnRawResponse c"
  "timeout (snd (request_arguments p separator params data c)) = timeout c"
  by (simp_all add: request_arguments_def with_headers_fields Let_def
        split: option.splits completion.splits)

lemma HttpClient__request_cases:
  "HttpClient__request p method requestArgs c =
     (case request_target p requestArgs c of
        Throw e \<Rightarrow> Rejected e
      | Return request \<Rightarrow>
          (case send p c request (additionalRequestArgs method requestArgs) of
             Pending \<Rightarrow> Pending
           | Rejected e \<Rightarrow> Rejected e
           | Resolved r \<Rightarrow> response_envelope method c r))"
  by (simp add: HttpClient__request_def)

text \<open>
  Claim C1, as stated, fails where nothing ever settles: with a timeout of 0 the fetch is
  awaited with no timer, and when the fetch promise stays pending so does \<open>request\<close>.
\<close>

theorem request_pending_counterexample:
  "fst (HttpClient_request (example_platform False []) ''GET'' '';'' QUndefined DUndefined
          (example_client 0 False)) = Pending"
  by (simp add: HttpClient_request_def request_catch_cases request_arguments_def example_client_def
        form_headers_def data_body_def auth_headers_def truthy_def string_params_def with_headers_def
        HttpClient__request_def request_target_def send_def fetch_direct_def example_platform_def
        additionalRequestArgs_def body_truthy_def Let_def)

text \<open>
  Claim C1, amended. For every method, separator, params and data and every behaviour of
  the collaborators, \<open>request\<close> never throws and never rejects. Whenever a step fails
  (preparing the arguments, creating the request handle, the send with or without the
  timeout race, reading the body) it resolves with the envelope whose code and headers are
  \<open>undefined\<close> and whose body is the caught error; when every step succeeds it resolves
  with the envelope of the response; it stays pending only while the awaited send or the
  body read never settles.
\<close>

theorem request_never_rejects:
  "(\<forall>e. fst (HttpClient_request p method separator params data c) \<noteq> Rejected e)
   \<and> fst (HttpClient_request p method separator params data c) =
       (case fst (request_arguments p separator params data c) of
          Throw e \<Rightarrow> Resolved (caught e)
        | Return requestArgs \<Rightarrow>
            (case request_target p requestArgs (snd (request_arguments p separator params data c)) of
               Throw e \<Rightarrow> Resolved (caught e)
             | Return request \<Rightarrow>
                 (case send p (snd (request_arguments p separator params data c)) request
                         (additionalRequestArgs method requestArgs) of
                    Pending \<Rightarrow> Pending
                  | Rejected e \<Rightarrow> Resolved (caught e)
                  | Resolved r \<Rightarrow>
                      (case response_envelope method (snd (request_arguments p separator params data c)) r of
                         Pending \<Rightarrow> Pending
                       | Rejected e \<Rightarrow> Resolved (caught e)
                       | Resolved env \<Rightarrow> Resolved env))))"
proof
  show "\<forall>e. fst (HttpClient_request p method separator params data c) \<noteq> Rejected e"
    by (simp add: HttpClient_request_def request_catch_not_rejected)
  show "fst (HttpClient_request p method separator params data c) =
       (case fst (request_arguments p separator params data c) of
          Throw e \<Rightarrow> Resolved (caught e)
        | Return requestArgs \<Rightarrow>
            (case request_target p requestArgs (snd (request_arguments p separator params data c)) of
               Throw e \<Rightarrow> Resolved (caught e)
             | Return request \<Rightarrow>
                 (case send p (snd (request_arguments p separator params data c)) request
                         (additionalRequestArgs method requestArgs) of
                    Pending \<Rightarrow> Pending
                  | Rejected e \<Rightarrow> Resolved (caught e)
                  | Resolved r \<Rightarrow>
                      (case response_envelope method (snd (request_arguments p separator params data c)) r of
                         Pending \<Rightarrow> Pending
                       | Rejected e \<Rightarrow> Resolved (caught e)
                       | Resolved env \<Rightarrow> Resolved env))))"
    by (simp add: HttpClient_request_def request_catch_cases HttpClient__request_cases
          split: completion.splits promise.splits)
qed

theorem request_never_rejects_witness:
  "fst (HttpClient_request (example_platform False [FetchRejected (PlatformError ''network'')])
          ''GET'' '';'' QUndefined DUndefined (example_client 0 False))
     = Resolved \<lparr>code = None, headers = None, body = BodyError (PlatformError ''network''),
                 rawResponse = None\<rparr>
   \<and> fst (HttpClient_request (example_platform False [TimerFired])
          ''GET'' '';'' QUndefined DUndefined (example_client 30000 False))
     = Resolved \<lparr>code = None, headers = None, body = BodyError (JsError ''Timeout occurred''),
                 rawResponse = None\<rparr>"
  using request_never_rejects [of "example_platform False [FetchRejected (PlatformError ''network'')]"
          "''GET''" "'';''" QUndefined DUndefined "example_client 0 False"]
        request_never_rejects [of "example_platform False [TimerFired]"
          "''GET''" "'';''" QUndefined DUndefined "example_client 30000 False"]
  by (simp add: request_arguments_def example_client_def
        form_headers_def data_body_def auth_headers_def truthy_def string_params_def with_headers_def
        request_target_def send_def fetch_direct_def example_platform_def
        additionalRequestArgs_def body_truthy_def Let_def caught_def
        fetchWithTimeout_def race_after_def executor_def settle_def)

section \<open>Responses with a status that is not ok\<close>

lemma response_envelope_not_ok:
  "\<not> ok r \<Longrightarrow> response_envelope method c r =
     Resolved \<lparr>code = Some (status r), headers = Some (responseHeaders (response_headers r)),
               body = BodyError (JsError (String_nat (status r) @ statusText r)),
               rawResponse = (if returnRawResponse c then Some r else None)\<rparr>"
  by (simp add: response_envelope_def status_error_def Let_def)

lemma verb_returns:
  "buildRequestParameters qp separator = Return built \<Longrightarrow>
     verb p method qp separator data c =
       HttpClient_request p method separator (case built of None \<Rightarrow> QNull | Some s \<Rightarrow> QString s) data c"
  by (simp add: verb_def)

lemma String_nat_404: "String_nat 404 = ''404''"
  by code_simp

text \<open>
  Claim C3, as stated, fails on the message: for a 404 response with the status text
  \<open>Not Found\<close> the body is \<open>Error("404Not Found")\<close>, the status and the status text with
  nothing between them.
\<close>

theorem not_found_counterexample:
  "fst (HttpClient_request
          (example_platform False [FetchResolved (example_response 404 False ''Not Found'' ''text/html'' Pending Pending)])
          ''GET'' '';'' QNull DUndefined (example_client 0 False))
     = Resolved \<lparr>code = Some 404, headers = Some [(''content_type'', ''text/html'')],
                 body = BodyError (JsError ''404Not Found''), rawResponse = None\<rparr>
   \<and> BodyError (JsError ''404Not Found'') \<noteq> BodyError (JsError ''404 Not Found'')"
proof -
  have n: "normalise_name ''Content-Type'' = ''content_type''"
    by code_simp
  show ?thesis
    by (simp add: HttpClient_request_def request_catch_def request_try_def request_arguments_def
        example_client_def form_headers_def data_body_def auth_headers_def truthy_def string_params_def
        with_headers_def HttpClient__request_def request_target_def send_def fetch_direct_def
        example_platform_def additionalRequestArgs_def body_truthy_def Let_def
        response_envelope_not_ok example_response_def responseHeaders_def n String_nat_404)
qed

text \<open>
  Claim C3, amended. For every response whose \<open>ok\<close> flag is false, \<open>request\<close> and every verb
  helper resolve, without throwing, to an envelope whose code is the status and whose body
  is an \<open>Error\<close> whose message is the decimal status immediately followed by the status
  text, for a 404 response with the status text \<open>Not Found\<close> the message \<open>404Not Found\<close>.
\<close>

theorem not_ok_envelope:
  assumes "fst (request_arguments p separator params data c) = Return requestArgs"
    and "request_target p requestArgs (snd (request_arguments p separator params data c)) = Return request"
    and "send p (snd (request_arguments p separator params data c)) request
           (additionalRequestArgs method requestArgs) = Resolved r"
    and "\<not> ok r"
  shows "fst (HttpClient_request p method separator params data c) =
           Resolved \<lparr>code = Some (status r), headers = Some (responseHeaders (response_headers r)),
                     body = BodyError (JsError (String_nat (status r) @ statusText r)),
                     rawResponse = (if returnRawResponse c then Some r else None)\<rparr>
       \<and> (\<forall>qp built. buildRequestParameters qp separator = Return built
              \<and> params = (case built of None \<Rightarrow> QNull | Some s \<Rightarrow> QString s)
            \<longrightarrow> fst (verb p method qp separator data c) =
                  fst (HttpClient_request p method separator params data c)
              \<and> (data = DUndefined \<and> method = ''GET'' \<longrightarrow>
                   fst (requestGet p qp separator c) =
                   fst (HttpClient_request p method separator params data c)))"
proof -
  have "fst (HttpClient_request p method separator params data c) =
      response_envelope method (snd (request_arguments p separator params data c)) r"
    by (cases "response_envelope method (snd (request_arguments p separator params data c)) r")
       (simp_all add: HttpClient_request_def request_catch_cases HttpClient__request_cases assms
          response_envelope_not_ok)
  then have 1: "fst (HttpClient_request p method separator params data c) =
           Resolved \<lparr>code = Some (status r), headers = Some (responseHeaders (response_headers r)),
                     body = BodyError (JsError (String_nat (status r) @ statusText r)),
                     rawResponse = (if returnRawResponse c then Some r else None)\<rparr>"
    by (simp add: response_envelope_not_ok [OF assms(4)] request_arguments_fields)
  have 2: "fst (verb p method qp separator data c) =
                  fst (HttpClient_request p method separator params data c)"
    if "buildRequestParameters qp separator = Return built"
       "params = (case built of None \<Rightarrow> QNull | Some s \<Rightarrow> QString s)" for qp built
    using that by (simp add: verb_returns)
  have 3: "fst (requestGet p qp separator c) = fst (verb p method qp separator data c)"
    if "data = DUndefined" "method = ''GET''" for qp
    using that by (simp add: requestGet_def)
  show ?thesis using 1 2 3 by auto
qed

theorem not_ok_envelope_witness:
  "fst (HttpClient_request
          (example_platform False [FetchResolved (example_response 500 False ''Oops'' ''text/html'' Pending Pending)])
          ''GET'' '';'' QNull DUndefined (example_client 0 False))
     = Resolved \<lparr>code = Some 500,
                 headers = Some (responseHeaders (ViaForEach [(''Content-Type'', ''text/html'')])),
                 body = BodyError (JsError (String_nat 500 @ ''Oops'')), rawResponse = None\<rparr>"
proof -
  let ?r = "example_response 500 False ''Oops'' ''text/html'' Pending Pending"
  let ?p = "example_platform False [FetchResolved ?r]"
  let ?c = "example_client 0 False"
  let ?a = "\<lparr>args_headers = [], args_params = None, args_separator = None, args_body = None\<rparr>"
  have ra: "request_arguments ?p '';'' QNull DUndefined ?c = (Return ?a, ?c)"
    by (simp add: request_arguments_def example_client_def form_headers_def data_body_def
          auth_headers_def truthy_def string_params_def with_headers_def Let_def)
  have a1: "fst (request_arguments ?p '';'' QNull DUndefined ?c) = Return ?a"
    by (simp add: ra)
  have a2: "request_target ?p ?a (snd (request_arguments ?p '';'' QNull DUndefined ?c))
      = Return (requestInstance ?c)"
    unfolding ra snd_conv by (simp add: request_target_def truthy_def)
  have a3: "send ?p (snd (request_arguments ?p '';'' QNull DUndefined ?c)) (requestInstance ?c)
      (additionalRequestArgs ''GET'' ?a) = Resolved ?r"
    unfolding ra snd_conv
    by (simp add: send_def fetch_direct_def example_platform_def example_client_def)
  have a4: "\<not> ok ?r"
    by (simp add: example_response_def)
  show ?thesis
    using not_ok_envelope [OF a1 a2 a3 a4]
    by (simp add: example_response_def example_client_def)
qed

section \<open>The JSON client: a body that is not JSON\<close>

lemma response_envelope_raw:
  "returnRawResponse c \<Longrightarrow> \<exists>ret. response_envelope method c r = Resolved ret \<and> rawResponse ret = Some r"
  by (simp add: response_envelope_def Let_def)

lemma HttpJsonClient__request_decode_fails:
  assumes "request_target p requestArgs c = Return request"
    and "send p c request (additionalRequestArgs method requestArgs) = Resolved r"
    and "returnRawResponse c" and "json r = Rejected e"
  shows "HttpJsonClient__request p method requestArgs c = Rejected e"
proof -
  obtain ret where ret: "response_envelope method c r = Resolved ret" "rawResponse ret = Some r"
    using response_envelope_raw [OF assms(3)] by blast
  have "HttpClient__request p method requestArgs c = Resolved ret"
    by (simp add: HttpClient__request_def assms(1,2) ret(1))
  then show ?thesis
    by (simp add: HttpJsonClient__request_def ret(2) assms(4))
qed

lemma json_decode_caught:
  assumes "fst (request_arguments p separator params d c0) = Return requestArgs"
    and "request_target p requestArgs (snd (request_arguments p separator params d c0)) = Return request"
    and "send p (snd (request_arguments p separator params d c0)) request
           (additionalRequestArgs method requestArgs) = Resolved r"
    and "returnRawResponse c0" and "json r = Rejected e"
  shows "fst (request_catch (HttpJsonClient__request p) p method separator params d c0) = Resolved (caught e)"
proof -
  have raw: "returnRawResponse (snd (request_arguments p separator params d c0))"
    by (simp add: request_arguments_fields assms(4))
  show ?thesis
    by (simp add: request_catch_cases assms(1)
          HttpJsonClient__request_decode_fails [OF assms(2,3) raw assms(5)])
qed

text \<open>
  Claim C5, as stated, fails: a response that claims JSON and whose body does not decode
  makes the wrapper's \<open>request\<close> resolve, with the envelope whose code is \<open>undefined\<close> and
  whose body is the decode error, exactly as for a transport error.
\<close>

theorem malformed_json_counterexample:
  "fst (HttpJsonClient_request
          (example_platform False
             [FetchResolved (example_response 200 True ''OK'' ''application/json'' Pending
                (Rejected (PlatformError ''SyntaxError'')))])
          ''GET'' '';'' QNull DUndefined (example_client 0 True))
     = Resolved \<lparr>code = None, headers = None, body = BodyError (PlatformError ''SyntaxError''),
                 rawResponse = None\<rparr>"
  by (simp add: HttpJsonClient_request_def data_object_def request_catch_def request_try_def
        request_arguments_def example_client_def form_headers_def data_body_def auth_headers_def
        truthy_def string_params_def with_headers_def HttpJsonClient__request_def
        HttpClient__request_def request_target_def send_def fetch_direct_def
        example_platform_def additionalRequestArgs_def body_truthy_def Let_def
        response_envelope_def example_response_def caught_def)

text \<open>
  Claim C5, amended. When the wrapper receives a response whose body is not JSON, the
  decode error rejects the wrapper's \<open>_request\<close>, which runs inside the \<open>try\<close> block of the
  base \<open>request\<close>: the wrapper's \<open>request\<close> resolves with the envelope whose code and headers
  are \<open>undefined\<close> and whose body is the decode error. This holds with and without an
  object payload, and whatever content type the response claims.
\<close>

theorem malformed_json_is_caught:
  assumes "returnRawResponse c" and "json r = Rejected e"
    and "data_object data = None \<and> d = data \<and> c0 = c
         \<or> (\<exists>kvs inst h s. data_object data = Some kvs \<and> requestInstance c = Some inst
               \<and> json_content_type p (json_accept (request_headers inst)) = Return h
               \<and> JSON_stringify p kvs = Inr s \<and> d = DString s \<and> c0 = with_headers h c)"
    and "fst (request_arguments p separator params d c0) = Return requestArgs"
    and "request_target p requestArgs (snd (request_arguments p separator params d c0)) = Return request"
    and "send p (snd (request_arguments p separator params d c0)) request
           (additionalRequestArgs method requestArgs) = Resolved r"
  shows "fst (HttpJsonClient_request p method separator params data c) = Resolved (caught e)"
proof -
  have raw: "returnRawResponse c0"
    using assms(1,3) by (auto simp: with_headers_fields)
  have "HttpJsonClient_request p method separator params data c =
      request_catch (HttpJsonClient__request p) p method separator params d c0"
    using assms(3) by (auto simp: HttpJsonClient_request_def)
  then show ?thesis
    by (simp add: json_decode_caught [OF assms(4,5,6) raw assms(2)])
qed

theorem malformed_json_is_caught_witness:
  "fst (HttpJsonClient_request
          (example_platform False
             [FetchResolved (example_response 200 True ''OK'' ''application/json'' Pending
                (Rejected (PlatformError ''SyntaxError'')))])
          ''GET'' '';'' QNull DUndefined (example_client 0 True))
     = Resolved (caught (PlatformError ''SyntaxError''))"
proof -
  let ?r = "example_response 200 True ''OK'' ''application/json'' Pending (Rejected (PlatformError ''SyntaxError''))"
  let ?p = "example_platform False [FetchResolved ?r]"
  let ?c = "example_client 0 True"
  let ?a = "\<lparr>args_headers = [], args_params = None, args_separator = None, args_body = None\<rparr>"
  have ra: "request_arguments ?p '';'' QNull DUndefined ?c = (Return ?a, ?c)"
    by (simp add: request_arguments_def example_client_def form_headers_def data_body_def
          auth_headers_def truthy_def string_params_def with_headers_def Let_def)
  have a1: "returnRawResponse ?c" by (simp add: example_client_def)
  have a2: "json ?r = Rejected (PlatformError ''SyntaxError'')" by (simp add: example_response_def)
  have a3: "data_object DUndefined = None \<and> DUndefined = DUndefined \<and> ?c = ?c
         \<or> (\<exists>kvs inst h s. data_object DUndefined = Some kvs \<and> requestInstance ?c = Some inst
               \<and> json_content_type ?p (json_accept (request_headers inst)) = Return h
               \<and> JSON_stringify ?p kvs = Inr s \<and> DUndefined = DString s \<and> ?c = with_headers h ?c)"
    by (simp add: data_object_def)
  have a4: "fst (request_arguments ?p '';'' QNull DUndefined ?c) = Return ?a"
    by (simp add: ra)
  have a5: "request_target ?p ?a (snd (request_arguments ?p '';'' QNull DUndefined ?c))
      = Return (requestInstance ?c)"
    unfolding ra snd_conv by (simp add: request_target_def truthy_def)
  have a6: "send ?p (snd (request_arguments ?p '';'' QNull DUndefined ?c)) (requestInstance ?c)
      (additionalRequestArgs ''GET'' ?a) = Resolved ?r"
    unfolding ra snd_conv
    by (simp add: send_def fetch_direct_def example_platform_def example_client_def)
  show ?thesis
    by (rule malformed_json_is_caught [OF a1 a2 a3 a4 a5 a6])
qed

section \<open>The JSON client: which responses are decoded\<close>

lemma toLowerCase_length: "length (toLowerCase s) = length s"
  by (simp add: toLowerCase_def)

lemma json_pattern_at_iff:
  "json_pattern_at s \<longleftrightarrow>
     (\<exists>mid post. s = mid @ post \<and> toLowerCase mid = ''application/json''
        \<and> (post = [] \<or> (\<exists>t. post = CHR '';'' # t)))"
proof
  assume a: "json_pattern_at s"
  have "s = take 16 s @ drop 16 s" by simp
  moreover have "toLowerCase (take 16 s) = ''application/json''" using a by simp
  moreover have "drop 16 s = [] \<or> (\<exists>t. drop 16 s = CHR '';'' # t)"
  proof (cases "drop 16 s")
    case Nil
    then show ?thesis by simp
  next
    case (Cons y ys)
    then have "y = CHR '';''" using a by simp
    then show ?thesis using Cons by simp
  qed
  ultimately show "\<exists>mid post. s = mid @ post \<and> toLowerCase mid = ''application/json''
        \<and> (post = [] \<or> (\<exists>t. post = CHR '';'' # t))"
    by blast
next
  assume "\<exists>mid post. s = mid @ post \<and> toLowerCase mid = ''application/json''
        \<and> (post = [] \<or> (\<exists>t. post = CHR '';'' # t))"
  then obtain mid post where s: "s = mid @ post" and m: "toLowerCase mid = ''application/json''"
    and p: "post = [] \<or> (\<exists>t. post = CHR '';'' # t)"
    by blast
  have "length mid = length ''application/json''"
    using m toLowerCase_length [of mid] by simp
  then have l: "length mid = 16" by simp
  have "take 16 s = mid" "drop 16 s = post"
    using s l by simp_all
  then show "json_pattern_at s"
    using m p by auto
qed

lemma json_pattern_test_iff:
  "json_pattern_test s \<longleftrightarrow>
     (\<exists>pre mid post. s = pre @ mid @ post \<and> toLowerCase mid = ''application/json''
        \<and> (post = [] \<or> (\<exists>t. post = CHR '';'' # t)))"
proof (induction s)
  case Nil
  then show ?case by (auto simp: toLowerCase_def)
next
  case (Cons x xs)
  show ?case
  proof
    assume "json_pattern_test (x # xs)"
    then consider "json_pattern_at (x # xs)" | "json_pattern_test xs"
      by (simp only: json_pattern_test.simps) blast
    then show "\<exists>pre mid post. x # xs = pre @ mid @ post \<and> toLowerCase mid = ''application/json''
        \<and> (post = [] \<or> (\<exists>t. post = CHR '';'' # t))"
    proof cases
      case 1
      then obtain mid post where "x # xs = [] @ mid @ post" "toLowerCase mid = ''application/json''"
          "post = [] \<or> (\<exists>t. post = CHR '';'' # t)"
        using json_pattern_at_iff [of "x # xs"] by auto
      then show ?thesis by blast
    next
      case 2
      then obtain pre mid post where "xs = pre @ mid @ post" "toLowerCase mid = ''application/json''"
          "post = [] \<or> (\<exists>t. post = CHR '';'' # t)"
        using Cons.IH by blast
      then have "x # xs = (x # pre) @ mid @ post" by simp
      then show ?thesis
        using \<open>toLowerCase mid = ''application/json''\<close> \<open>post = [] \<or> (\<exists>t. post = CHR '';'' # t)\<close>
        by blast
    qed
  next
    assume "\<exists>pre mid post. x # xs = pre @ mid @ post \<and> toLowerCase mid = ''application/json''
        \<and> (post = [] \<or> (\<exists>t. post = CHR '';'' # t))"
    then obtain pre mid post where s: "x # xs = pre @ mid @ post"
      and m: "toLowerCase mid = ''application/json''"
      and p: "post = [] \<or> (\<exists>t. post = CHR '';'' # t)"
      by blast
    show "json_pattern_test (x # xs)"
    proof (cases pre)
      case Nil
      then have "json_pattern_at (x # xs)"
        using s m p json_pattern_at_iff [of "x # xs"] by auto
      then show ?thesis by (simp only: json_pattern_test.simps) blast
    next
      case (Cons y ys)
      then have "xs = ys @ mid @ post" using s by simp
      then have "json_pattern_test xs" using Cons.IH m p by blast
      then show ?thesis by (simp only: json_pattern_test.simps) blast
    qed
  qed
qed

lemma HttpJsonClient_newResponse_resolved:
  assumes "super_newResponse method requestArgs r = Resolved ret" and "headers ret = Some hs"
  shows "HttpJsonClient_newResponse super_newResponse method requestArgs r =
     (if (case map_of hs ''content_type'' of None \<Rightarrow> False | Some ct \<Rightarrow> json_pattern_test ct)
      then handleJsonResponse ret else Resolved ret)"
proof (cases "map_of hs ''content_type''")
  case None
  then show ?thesis
    by (simp add: HttpJsonClient_newResponse_def assms content_type_header_def truthy_def)
next
  case (Some ct)
  have "ct = [] \<Longrightarrow> \<not> json_pattern_test ct" by simp
  then show ?thesis
    by (auto simp: HttpJsonClient_newResponse_def assms content_type_header_def truthy_def
          js_str_def Some)
qed

lemma HttpJsonClient__request_decodes:
  assumes "HttpClient__request p method requestArgs c = Resolved ret"
    and "rawResponse ret = Some raw"
  shows "HttpJsonClient__request p method requestArgs c =
     (case json raw of
        Pending \<Rightarrow> Pending
      | Rejected e \<Rightarrow> Rejected e
      | Resolved v \<Rightarrow> Resolved (ret\<lparr>body := BodyJson v, rawResponse := None\<rparr>))"
  by (simp add: HttpJsonClient__request_def assms)

text \<open>
  Claim C4, as stated, fails on the variants of the wrapper that override \<open>_request\<close>: they
  decode every response that carries a raw handle. A \<open>text/plain\<close> response whose body
  happens to decode comes back with the decoded value as its body.
\<close>

theorem decode_without_json_type_counterexample:
  "HttpJsonClient__request
     (example_platform False
        [FetchResolved (example_response 200 True ''OK'' ''text/plain'' Pending (Resolved (JNum 1)))])
     ''GET'' \<lparr>args_headers = [], args_params = None, args_separator = None, args_body = None\<rparr>
     (example_client 0 True)
     = Resolved \<lparr>code = Some 200, headers = Some [(''content_type'', ''text/plain'')],
                 body = BodyJson (JNum 1), rawResponse = None\<rparr>
   \<and> \<not> json_pattern_test ''text/plain''"
proof -
  have n: "normalise_name ''Content-Type'' = ''content_type''"
    by code_simp
  have t: "\<not> json_pattern_test ''text/plain''"
    by code_simp
  show ?thesis
    by (simp add: t HttpJsonClient__request_def HttpClient__request_def request_target_def
        send_def fetch_direct_def example_platform_def example_client_def additionalRequestArgs_def
        body_truthy_def truthy_def response_envelope_def example_response_def responseHeaders_def n
        Let_def del: json_pattern_test.simps json_pattern_at.simps)
qed

text \<open>
  Claim C4, amended. In the variant of the wrapper that overrides \<open>newResponse\<close>, the body
  is JSON-decoded and put in place of the body, the raw handle being removed, if and only
  if the \<open>content_type\<close> header of the envelope of the base class contains, at any position
  and in any letter case, \<open>application/json\<close> followed by \<open>;\<close> or by the end of the text;
  otherwise the envelope of the base class is returned as it is. In the variants that
  override \<open>_request\<close>, every response that carries a raw handle is JSON-decoded, whatever
  its content type.
\<close>

theorem json_decode_gate:
  "(super_newResponse method requestArgs r = Resolved ret \<and> headers ret = Some hs \<longrightarrow>
      HttpJsonClient_newResponse super_newResponse method requestArgs r =
        (if (case map_of hs ''content_type'' of None \<Rightarrow> False | Some ct \<Rightarrow> json_pattern_test ct)
         then (case rawResponse ret of
                 None \<Rightarrow> Rejected (TypeError ''Cannot read properties of undefined'')
               | Some raw \<Rightarrow>
                   (case json raw of
                      Pending \<Rightarrow> Pending
                    | Rejected e \<Rightarrow> Rejected e
                    | Resolved v \<Rightarrow> Resolved (ret\<lparr>body := BodyJson v, rawResponse := None\<rparr>)))
         else Resolved ret))
   \<and> (json_pattern_test ct \<longleftrightarrow>
        (\<exists>pre mid post. ct = pre @ mid @ post \<and> toLowerCase mid = ''application/json''
           \<and> (post = [] \<or> (\<exists>t. post = CHR '';'' # t))))
   \<and> (HttpClient__request p method requestArgs c = Resolved ret \<and> rawResponse ret = Some raw
        \<and> json raw = Resolved v \<longrightarrow>
      HttpJsonClient__request p method requestArgs c =
        Resolved (ret\<lparr>body := BodyJson v, rawResponse := None\<rparr>))"
proof (intro conjI impI)
  assume a: "super_newResponse method requestArgs r = Resolved ret \<and> headers ret = Some hs"
  show "HttpJsonClient_newResponse super_newResponse method requestArgs r =
        (if (case map_of hs ''content_type'' of None \<Rightarrow> False | Some ct \<Rightarrow> json_pattern_test ct)
         then (case rawResponse ret of
                 None \<Rightarrow> Rejected (TypeError ''Cannot read properties of undefined'')
               | Some raw \<Rightarrow>
                   (case json raw of
                      Pending \<Rightarrow> Pending
                    | Rejected e \<Rightarrow> Rejected e
                    | Resolved v \<Rightarrow> Resolved (ret\<lparr>body := BodyJson v, rawResponse := None\<rparr>)))
         else Resolved ret)"
    using a by (simp add: HttpJsonClient_newResponse_resolved handleJsonResponse_def)
next
  show "json_pattern_test ct \<longleftrightarrow>
        (\<exists>pre mid post. ct = pre @ mid @ post \<and> toLowerCase mid = ''application/json''
           \<and> (post = [] \<or> (\<exists>t. post = CHR '';'' # t)))"
    by (rule json_pattern_test_iff)
next
  assume "HttpClient__request p method requestArgs c = Resolved ret \<and> rawResponse ret = Some raw
        \<and> json raw = Resolved v"
  then show "HttpJsonClient__request p method requestArgs c =
        Resolved (ret\<lparr>body := BodyJson v, rawResponse := None\<rparr>)"
    by (simp add: HttpJsonClient__request_decodes)
qed

theorem json_decode_gate_witness:
  "HttpJsonClient_newResponse
     (\<lambda>m a raw. Resolved \<lparr>code = Some (status raw),
                            headers = Some [(''content_type'', ''application/json; charset=utf-8'')],
                            body = BodyNull, rawResponse = Some raw\<rparr>)
     ''GET'' \<lparr>args_headers = [], args_params = None, args_separator = None, args_body = None\<rparr>
     (example_response 200 True ''OK'' ''application/json; charset=utf-8'' Pending
        (Resolved (JObj [(''b'', JNum 2)])))
     = Resolved \<lparr>code = Some 200,
                 headers = Some [(''content_type'', ''application/json; charset=utf-8'')],
                 body = BodyJson (JObj [(''b'', JNum 2)]), rawResponse = None\<rparr>
   \<and> HttpJsonClient_newResponse
     (\<lambda>m a raw. Resolved \<lparr>code = Some (status raw),
                            headers = Some [(''content_type'', ''text/plain'')],
                            body = BodyNull, rawResponse = Some raw\<rparr>)
     ''GET'' \<lparr>args_headers = [], args_params = None, args_separator = None, args_body = None\<rparr>
     (example_response 200 True ''OK'' ''text/plain'' Pending (Resolved (JNum 1)))
     = Resolved \<lparr>code = Some 200, headers = Some [(''content_type'', ''text/plain'')],
                 body = BodyNull,
                 rawResponse = Some (example_response 200 True ''OK'' ''text/plain'' Pending (Resolved (JNum 1)))\<rparr>"
proof -
  have y: "json_pattern_test ''application/json; charset=utf-8''"
    by code_simp
  have n: "\<not> json_pattern_test ''text/plain''"
    by code_simp
  let ?args = "\<lparr>args_headers = [], args_params = None, args_separator = None, args_body = None\<rparr>"
  let ?r1 = "example_response 200 True ''OK'' ''application/json; charset=utf-8'' Pending
        (Resolved (JObj [(''b'', JNum 2)]))"
  let ?r2 = "example_response 200 True ''OK'' ''text/plain'' Pending (Resolved (JNum 1))"
  show ?thesis
    using json_decode_gate [of
            "\<lambda>m a raw. Resolved \<lparr>code = Some (status raw),
                            headers = Some [(''content_type'', ''application/json; charset=utf-8'')],
                            body = BodyNull, rawResponse = Some raw\<rparr>"
            "''GET''" ?args ?r1
            "\<lparr>code = Some (status ?r1),
                            headers = Some [(''content_type'', ''application/json; charset=utf-8'')],
                            body = BodyNull, rawResponse = Some ?r1\<rparr>"
            "[(''content_type'', ''application/json; charset=utf-8'')]", THEN conjunct1]
          json_decode_gate [of
            "\<lambda>m a raw. Resolved \<lparr>code = Some (status raw),
                            headers = Some [(''content_type'', ''text/plain'')],
                            body = BodyNull, rawResponse = Some raw\<rparr>"
            "''GET''" ?args ?r2
            "\<lparr>code = Some (status ?r2),
                            headers = Some [(''content_type'', ''text/plain'')],
                            body = BodyNull, rawResponse = Some ?r2\<rparr>"
            "[(''content_type'', ''text/plain'')]", THEN conjunct1]
    by (simp add: y n example_response_def del: json_pattern_test.simps json_pattern_at.simps)
qed

section \<open>Query strings\<close>

lemma paramsList_plain:
  assumes "\<forall>kv \<in> set kvs. (\<exists>s. snd kv = VString s) \<or> (\<exists>n. snd kv = VNumber n) \<or> (\<exists>b. snd kv = VBoolean b)"
  shows "paramsList kvs =
     Inr (map (\<lambda>kv. encode (fst kv) @ ''='' @
                 (case snd kv of VBoolean b \<Rightarrow> (if b then ''1'' else ''0'')
                               | VNumber n \<Rightarrow> encode (String_int n)
                               | VString s \<Rightarrow> encode s
                               | _ \<Rightarrow> [])) kvs)"
  using assms
proof (induction kvs)
  case Nil
  then show ?case by simp
next
  case (Cons kv kvs)
  have "param_entry kv = Inr (encode (fst kv) @ ''='' @
                 (case snd kv of VBoolean b \<Rightarrow> (if b then ''1'' else ''0'')
                               | VNumber n \<Rightarrow> encode (String_int n)
                               | VString s \<Rightarrow> encode s
                               | _ \<Rightarrow> []))"
    using Cons.prems by (auto simp: param_entry_def)
  then show ?case using Cons by simp
qed

lemma buildRequestParameters_plain:
  assumes "\<forall>kv \<in> set kvs. (\<exists>s. snd kv = VString s) \<or> (\<exists>n. snd kv = VNumber n) \<or> (\<exists>b. snd kv = VBoolean b)"
  shows "buildRequestParameters (QObject kvs) separator =
     Return (Some (join separator
       (map (\<lambda>kv. encode (fst kv) @ ''='' @
                 (case snd kv of VBoolean b \<Rightarrow> (if b then ''1'' else ''0'')
                               | VNumber n \<Rightarrow> encode (String_int n)
                               | VString s \<Rightarrow> encode s
                               | _ \<Rightarrow> [])) kvs)))"
  by (simp add: buildRequestParameters_def paramsList_plain [OF assms])

text \<open>
  Claim C7 at the input \<open>{q: "a b c"}\<close> with the separator \<open>;\<close>: \<open>encode\<close> replaces the
  first \<open>%20\<close> only, so the second space of the value stays \<open>%20\<close> in the query string.
\<close>

theorem encode_second_space:
  "encode ''a b c'' = ''a+b%20c''
   \<and> buildRequestParameters (QObject [(''q'', VString ''a b c'')]) '';'' = Return (Some ''q=a+b%20c'')"
  by code_simp

text \<open>
  Claim C8 at the input \<open>requestGet("a=1;b=2", ";")\<close>: \<open>buildRequestParameters\<close> returns
  \<open>null\<close> for a string, so the helper sends the request to the configured URL with no
  query string, while \<open>request\<close> called with the same string sends it with the query
  string.
\<close>

theorem string_params_lost:
  "buildRequestParameters (QString ''a=1;b=2'') '';'' = Return None
   \<and> fst (requestGet echo_platform (QString ''a=1;b=2'') '';'' (example_client 0 False))
       = Resolved \<lparr>code = Some 200, headers = Some [],
                   body = BodyBytes ''http://example.org/api'', rawResponse = None\<rparr>
   \<and> fst (HttpClient_request echo_platform ''GET'' '';'' (QString ''a=1;b=2'') DUndefined
            (example_client 0 False))
       = Resolved \<lparr>code = Some 200, headers = Some [],
                   body = BodyBytes ''http://example.org/api?a=1;b=2'', rawResponse = None\<rparr>"
  by (simp add: buildRequestParameters_def requestGet_def verb_def
        HttpClient_request_def request_catch_def request_try_def request_arguments_def
        example_client_def form_headers_def data_body_def auth_headers_def truthy_def
        string_params_def with_headers_def HttpClient__request_def request_target_def
        send_def fetch_direct_def echo_platform_def additionalRequestArgs_def body_truthy_def
        Let_def response_envelope_def responseHeaders_def configureFromUrl_def request_url_def
        js_str_def)

lemma of_char_less_256: "(of_char c :: nat) < 256"
proof -
  have "(of_char c :: nat) mod 256 < 256" by simp
  then show ?thesis by (simp only: of_char_mod_256)
qed

lemma hex_digit_value: "k < 16 \<Longrightarrow> hex_value (hex_digit k) = Some k"
  by (auto simp: hex_value_def hex_digit_def Let_def)

lemma hex_digit_of_char: "k < 16 \<Longrightarrow> (of_char (hex_digit k) :: nat) = (if k < 10 then 48 + k else 55 + k)"
  by (auto simp: hex_digit_def)


lemma percent_byte_decode:
  "percent_decode (percent_byte c @ rest) = map_option ((#) c) (percent_decode rest)"
proof -
  let ?n = "of_char c :: nat"
  have d: "?n div 16 < 16"
    by (rule less_mult_imp_div_less) (use of_char_less_256 [of c] in simp)
  have m: "?n mod 16 < 16" by simp
  have "char_of (16 * (?n div 16) + ?n mod 16) = c" by simp
  then show ?thesis
    by (cases "percent_decode rest")
       (simp_all add: percent_byte_def hex_digit_value [OF d] hex_digit_value [OF m])
qed

lemma unreserved_not_special:
  "uriUnreserved c \<Longrightarrow> c \<noteq> CHR ''%'' \<and> c \<noteq> CHR ''+'' \<and> c \<noteq> CHR '' ''"
  by (auto simp: uriUnreserved_def)

lemma hex_digit_not_special:
  assumes "k < 16"
  shows "hex_digit k \<noteq> CHR ''%''" and "hex_digit k \<noteq> CHR ''+''" and "hex_digit k \<noteq> CHR '' ''"
proof -
  have ge: "(of_char (hex_digit k) :: nat) \<ge> 48"
    using hex_digit_of_char [OF assms] by simp
  show "hex_digit k \<noteq> CHR ''%''"
  proof
    assume "hex_digit k = CHR ''%''"
    then have "(of_char (hex_digit k) :: nat) = of_char CHR ''%''" by simp
    then show False using ge by simp
  qed
  show "hex_digit k \<noteq> CHR ''+''"
  proof
    assume "hex_digit k = CHR ''+''"
    then have "(of_char (hex_digit k) :: nat) = of_char CHR ''+''" by simp
    then show False using ge by simp
  qed
  show "hex_digit k \<noteq> CHR '' ''"
  proof
    assume "hex_digit k = CHR '' ''"
    then have "(of_char (hex_digit k) :: nat) = of_char CHR '' ''" by simp
    then show False using ge by simp
  qed
qed


lemma percent_byte_space: "percent_byte CHR '' '' = ''%20''"
  by code_simp

lemma percent_byte_shape:
  "percent_byte c = [CHR ''%'', hex_digit ((of_char c :: nat) div 16), hex_digit ((of_char c :: nat) mod 16)]"
  by (simp add: percent_byte_def)

lemma percent_byte_is_20:
  assumes "percent_byte c = ''%20''"
  shows "c = CHR '' ''"
proof -
  let ?n = "of_char c :: nat"
  have d: "?n div 16 < 16"
    by (rule less_mult_imp_div_less) (use of_char_less_256 [of c] in simp)
  have m: "?n mod 16 < 16" by simp
  have h: "hex_digit (?n div 16) = CHR ''2''" "hex_digit (?n mod 16) = CHR ''0''"
    using assms by (simp_all add: percent_byte_def)
  have "hex_value (CHR ''2'') = Some 2" "hex_value (CHR ''0'') = Some 0"
    by (simp_all add: hex_value_def)
  then have "?n div 16 = 2" "?n mod 16 = 0"
    using hex_digit_value [OF d] hex_digit_value [OF m] h by simp_all
  then have "?n = 32"
    using div_mult_mod_eq [of ?n 16] by simp
  then have "?n = (of_char CHR '' '' :: nat)" by simp
  then show ?thesis by (simp only: of_char_eq_iff)
qed

lemma replace_first_skip:
  assumes "c \<noteq> CHR '' ''"
  shows "replace_first ''%20'' ''+'' ((if uriUnreserved c then [c] else percent_byte c) @ rest) =
     (if uriUnreserved c then [c] else percent_byte c) @ replace_first ''%20'' ''+'' rest"
proof (cases "uriUnreserved c")
  case True
  then have "c \<noteq> CHR ''%''" using unreserved_not_special by blast
  then show ?thesis using True by simp
next
  case False
  let ?n = "of_char c :: nat"
  let ?h = "hex_digit (?n div 16)" and ?l = "hex_digit (?n mod 16)"
  have d: "?n div 16 < 16"
    by (rule less_mult_imp_div_less) (use of_char_less_256 [of c] in simp)
  have m: "?n mod 16 < 16" by simp
  have pb: "percent_byte c = [CHR ''%'', ?h, ?l]" by (rule percent_byte_shape)
  have ne: "[CHR ''%'', ?h, ?l] \<noteq> ''%20''"
    using percent_byte_is_20 [of c] assms pb by auto
  have h: "?h \<noteq> CHR ''%''" using hex_digit_not_special(1) [OF d] .
  have l: "?l \<noteq> CHR ''%''" using hex_digit_not_special(1) [OF m] .
  have "replace_first ''%20'' ''+'' (CHR ''%'' # ?h # ?l # rest) =
      CHR ''%'' # ?h # ?l # replace_first ''%20'' ''+'' rest"
    using h l ne by simp
  then show ?thesis using False by (simp add: pb)
qed

lemma encode_no_space:
  "CHR '' '' \<notin> set s \<Longrightarrow> encode (s @ t) = encodeURIComponent s @ encode t"
proof (induction s)
  case Nil
  then show ?case by (simp add: encode_def encodeURIComponent_def)
next
  case (Cons c s)
  then have c: "c \<noteq> CHR '' ''" and s: "CHR '' '' \<notin> set s" by auto
  have "encode ((c # s) @ t) =
      replace_first ''%20'' ''+''
        ((if uriUnreserved c then [c] else percent_byte c) @ encodeURIComponent (s @ t))"
    by (simp add: encode_def encodeURIComponent_def)
  also have "\<dots> = (if uriUnreserved c then [c] else percent_byte c) @ encode (s @ t)"
    by (simp only: replace_first_skip [OF c] encode_def)
  also have "\<dots> = (if uriUnreserved c then [c] else percent_byte c) @ encodeURIComponent s @ encode t"
    by (simp only: Cons.IH [OF s])
  finally show ?case by (simp add: encodeURIComponent_def)
qed

lemma encode_space_first:
  "encode (CHR '' '' # t) = CHR ''+'' # encodeURIComponent t"
proof -
  have u: "\<not> uriUnreserved CHR '' ''" using unreserved_not_special by blast
  have "encodeURIComponent (CHR '' '' # t) = ''%20'' @ encodeURIComponent t"
    by (simp add: encodeURIComponent_def u percent_byte_space)
  then show ?thesis by (simp add: encode_def numeral_3_eq_3)
qed

lemma encode_Nil: "encode [] = []"
  by (simp add: encode_def encodeURIComponent_def)

lemma encodeURIComponent_no_plus: "CHR ''+'' \<notin> set (encodeURIComponent s)"
proof (induction s)
  case Nil
  then show ?case by (simp add: encodeURIComponent_def)
next
  case (Cons c s)
  let ?n = "of_char c :: nat"
  have d: "?n div 16 < 16"
    by (rule less_mult_imp_div_less) (use of_char_less_256 [of c] in simp)
  have m: "?n mod 16 < 16" by simp
  have "CHR ''+'' \<notin> set (if uriUnreserved c then [c] else percent_byte c)"
    using unreserved_not_special [of c] hex_digit_not_special(2) [OF d] hex_digit_not_special(2) [OF m]
    by (auto simp: percent_byte_def)
  then show ?case using Cons by (simp add: encodeURIComponent_def)
qed

lemma percent_decode_encoded:
  "percent_decode (encodeURIComponent s @ rest) = map_option ((@) s) (percent_decode rest)"
proof (induction s)
  case Nil
  then show ?case by (simp add: encodeURIComponent_def option.map_ident)
next
  case (Cons c s)
  show ?case
  proof (cases "uriUnreserved c")
    case True
    then have "c \<noteq> CHR ''%''" using unreserved_not_special by blast
    then show ?thesis
      using True Cons by (simp add: encodeURIComponent_def option.map_comp comp_def)
  next
    case False
    have "percent_decode (encodeURIComponent (c # s) @ rest) =
        percent_decode (percent_byte c @ (encodeURIComponent s @ rest))"
      using False by (simp add: encodeURIComponent_def)
    also have "\<dots> = map_option ((#) c) (percent_decode (encodeURIComponent s @ rest))"
      by (rule percent_byte_decode)
    finally show ?thesis
      using Cons by (simp add: option.map_comp comp_def)
  qed
qed

lemma decode_segment_encode: "decode_segment (encode s) = Some s"
proof (cases "CHR '' '' \<in> set s")
  case False
  have "encode s = encodeURIComponent s"
    using encode_no_space [OF False, of "[]"] by (simp add: encode_Nil)
  moreover have "map (\<lambda>c. if c = CHR ''+'' then CHR '' '' else c) (encodeURIComponent s) = encodeURIComponent s"
    by (rule map_idI) (use encodeURIComponent_no_plus [of s] in auto)
  ultimately show ?thesis
    using percent_decode_encoded [of s "[]"] by (simp add: decode_segment_def)
next
  case True
  then obtain a b where s: "s = a @ CHR '' '' # b" and a: "CHR '' '' \<notin> set a"
    using split_list_first by fastforce
  have e: "encode s = encodeURIComponent a @ CHR ''+'' # encodeURIComponent b"
    unfolding s by (simp only: encode_no_space [OF a] encode_space_first)
  have ma: "map (\<lambda>c. if c = CHR ''+'' then CHR '' '' else c) (encodeURIComponent a) = encodeURIComponent a"
    by (rule map_idI) (use encodeURIComponent_no_plus [of a] in auto)
  have mb: "map (\<lambda>c. if c = CHR ''+'' then CHR '' '' else c) (encodeURIComponent b) = encodeURIComponent b"
    by (rule map_idI) (use encodeURIComponent_no_plus [of b] in auto)
  have "decode_segment (encode s) =
      percent_decode (encodeURIComponent a @ CHR '' '' # encodeURIComponent b)"
    by (simp add: decode_segment_def e ma mb)
  also have "\<dots> = map_option ((@) a) (percent_decode (CHR '' '' # encodeURIComponent b @ []))"
    using percent_decode_encoded [of a "CHR '' '' # encodeURIComponent b"] by simp
  also have "\<dots> = Some s"
    using percent_decode_encoded [of b "[]"] by (simp add: s)
  finally show ?thesis .
qed

end
